theory Spec2Isabelle
  imports Main "HOL-Library.List_Lexorder" "HOL-Library.Char_ord" "HOL-Library.Multiset"
begin

section \<open>Data model\<close>

text \<open>
  Documents of the three collections, as the Mongoose schemas declare them
  (models/User.js, models/VotingSession.js, models/Vote.js). An ObjectId is a natural
  number: every identifier in the model is a well-formed ObjectId. A Date is its
  number of milliseconds, which is what the comparison operators of JavaScript
  compare. A character is a UTF-16 code unit below 256, so a string is a string of
  JavaScript whose code units are all below 256.
\<close>

type_synonym object_id = nat
type_synonym date = int

datatype user_role = RoleUser | RoleAdmin

record user_doc =
  user_id :: object_id
  username :: string
  email :: string
  role :: user_role

datatype session_status = Draft | Active | Closed

record candidate_doc =
  cand_id :: object_id
  cand_name :: string
  cand_description :: string

record session_doc =
  session_id :: object_id
  title :: string
  candidates :: "candidate_doc list"
  assignedUsers :: "object_id list"
  status :: session_status
  startDate :: "date option"
  endDate :: "date option"
  allowNewCandidates :: bool
  createdBy :: object_id

text \<open>
  A stored vote. \<open>votingSessionId\<close> is optional in the stored document, because
  \<open>createVote\<close> queries for documents without the field; the schema's
  \<open>required: true\<close> is enforced by \<open>VoteModel_save\<close> below.
\<close>

record vote_doc =
  vote_id :: object_id
  userId :: object_id
  votingSessionId :: "object_id option"
  candidateId :: "object_id option"
  candidateName :: string
  timestamp :: date
  isCustomCandidate :: bool

record store =
  users :: "user_doc list"
  sessions :: "session_doc list"
  votes :: "vote_doc list"

text \<open>Errors thrown inside a handler; \<open>error_message\<close> is the \<open>message\<close> property.\<close>

datatype js_error =
    Error string
  | ValidationError string
  | DuplicateKeyError
  | ReferenceError string
  | TypeError string

fun error_message :: "js_error \<Rightarrow> string" where
  "error_message (Error m) = m"
| "error_message (ValidationError p) =
     ''Vote validation failed: '' @ p @ '': Path '' @ p @ '' is required.''"
| "error_message DuplicateKeyError = ''E11000 duplicate key error collection: votes''"
| "error_message (ReferenceError x) = x @ '' is not defined''"
| "error_message (TypeError m) = m"

subsection \<open>Responses\<close>

record vote_summary =
  sum_id :: object_id
  sum_candidateName :: string
  sum_votingSessionId :: "object_id option"
  sum_timestamp :: date
  sum_isCustomCandidate :: bool

record result_entry =
  entry_candidateName :: string
  voteCount :: nat
  customCandidateCount :: nat

record session_results =
  results :: "result_entry list"
  totalVotes :: nat
  totalCandidates :: nat
  candidate_names :: "string list"

record populated_user =
  pop_id :: object_id
  pop_username :: string
  pop_email :: string

record vote_view =
  view_id :: object_id
  view_candidateName :: string
  view_user :: "populated_user option"
  view_timestamp :: date
  view_isCustomCandidate :: bool

record session_summary =
  ss_id :: object_id
  ss_title :: string
  ss_status :: session_status

record deleted_user =
  del_id :: "object_id option"
  del_username :: "string option"
  del_email :: "string option"

datatype payload =
    NoPayload
  | VotePayload vote_summary
  | LegacyVotePayload object_id string date
  | SessionDetail session_doc session_results "vote_view list"
  | ResultsPayload session_summary session_results
  | DeletedUserPayload deleted_user

record response =
  res_status :: nat
  res_message :: string
  res_payload :: payload

definition json :: "nat \<Rightarrow> string \<Rightarrow> response" where
  "json code msg = \<lparr>res_status = code, res_message = msg, res_payload = NoPayload\<rparr>"

section \<open>Strings\<close>

text \<open>
  \<open>String.prototype.trim\<close>: it removes the white space and the line
  terminators of ECMAScript at both ends. Among the code units below 256 these are
  tab, line feed, vertical tab, form feed, carriage return, space and the no-break
  space U+00A0.
\<close>

definition is_whitespace :: "char \<Rightarrow> bool" where
  "is_whitespace c =
     (c = CHR '' '' \<or> c = CHR 0x09 \<or> c = CHR 0x0A \<or> c = CHR 0x0B \<or> c = CHR 0x0C \<or> c = CHR 0x0D
      \<or> c = CHR 0xA0)"

definition trim :: "string \<Rightarrow> string" where
  "trim s = rev (dropWhile is_whitespace (rev (dropWhile is_whitespace s)))"

text \<open>The test \<open>!candidateName || candidateName.trim() === ''\<close> of the controllers.\<close>

definition name_missing :: "string option \<Rightarrow> bool" where
  "name_missing n = (case n of None \<Rightarrow> True | Some s \<Rightarrow> s = [] \<or> trim s = [])"

section \<open>models/Vote.js\<close>

text \<open>A new ObjectId: different from every identifier in the collection.\<close>

definition fresh_id :: "vote_doc list \<Rightarrow> object_id" where
  "fresh_id vs = Suc (foldr max (map vote_id vs) 0)"

text \<open>
  \<open>new VoteModel({...})\<close>: the schema's setters and defaults (\<open>trim\<close> on
  \<open>candidateName\<close>, \<open>Date.now\<close> for \<open>timestamp\<close>) and a new \<open>_id\<close>.
\<close>

definition new_VoteModel ::
  "vote_doc list \<Rightarrow> date \<Rightarrow> object_id \<Rightarrow> object_id option \<Rightarrow> object_id option \<Rightarrow> string \<Rightarrow> bool \<Rightarrow> vote_doc" where
  "new_VoteModel vs now uid sid cid name custom =
     \<lparr>vote_id = fresh_id vs, userId = uid, votingSessionId = sid, candidateId = cid,
      candidateName = trim name, timestamp = now, isCustomCandidate = custom\<rparr>"

text \<open>
  \<open>vote.save()\<close>: the schema's validation (\<open>votingSessionId\<close> and
  \<open>candidateName\<close> are \<open>required\<close>; a required string must be non-empty), then
  the insertion, which the unique index on \<open>(userId, votingSessionId)\<close> rejects
  when another document has the same pair.
\<close>

definition unique_index_hit :: "vote_doc list \<Rightarrow> vote_doc \<Rightarrow> bool" where
  "unique_index_hit vs v =
     list_ex (\<lambda>w. userId w = userId v \<and> votingSessionId w = votingSessionId v) vs"

definition VoteModel_save :: "vote_doc list \<Rightarrow> vote_doc \<Rightarrow> js_error + vote_doc list" where
  "VoteModel_save vs v =
     (if votingSessionId v = None then Inl (ValidationError ''votingSessionId'')
      else if candidateName v = [] then Inl (ValidationError ''candidateName'')
      else if unique_index_hit vs v then Inl DuplicateKeyError
      else Inr (vs @ [v]))"

definition VoteModel_findOne :: "(vote_doc \<Rightarrow> bool) \<Rightarrow> vote_doc list \<Rightarrow> vote_doc option" where
  "VoteModel_findOne q vs = find q vs"

definition VoteModel_findById :: "object_id \<Rightarrow> vote_doc list \<Rightarrow> vote_doc option" where
  "VoteModel_findById i vs = find (\<lambda>v. vote_id v = i) vs"

definition VoteModel_deleteMany :: "(vote_doc \<Rightarrow> bool) \<Rightarrow> vote_doc list \<Rightarrow> vote_doc list" where
  "VoteModel_deleteMany q vs = filter (\<lambda>v. \<not> q v) vs"

text \<open>\<open>Vote.createVote\<close>, the legacy global poll.\<close>

definition createVote ::
  "vote_doc list \<Rightarrow> date \<Rightarrow> object_id \<Rightarrow> string \<Rightarrow> js_error + (vote_doc list \<times> vote_doc)" where
  "createVote vs now uid name =
     (let existingVote = VoteModel_findOne (\<lambda>v. userId v = uid \<and> votingSessionId v = None) vs in
      if (case existingVote of None \<Rightarrow> False | Some e \<Rightarrow> candidateName e \<noteq> [])
      then Inl (Error ''User has already voted'')
      else
        (let vote = new_VoteModel vs now uid None None (trim name) False in
         case VoteModel_save vs vote of
           Inl e \<Rightarrow> Inl e
         | Inr vs' \<Rightarrow> Inr (vs', vote)))"

text \<open>The \<open>candidateData\<close> argument of \<open>Vote.castVoteInSession\<close>.\<close>

record candidate_data =
  cd_candidateId :: "object_id option"
  cd_candidateName :: string
  cd_isCustomCandidate :: bool

text \<open>
  \<open>Vote.castVoteInSession\<close>. The result is what \<open>VoteModel.findById(vote._id)\<close>
  finds after the insertion.
\<close>

definition Vote_castVoteInSession ::
  "vote_doc list \<Rightarrow> date \<Rightarrow> object_id \<Rightarrow> object_id \<Rightarrow> candidate_data
     \<Rightarrow> js_error + (vote_doc list \<times> vote_doc option)" where
  "Vote_castVoteInSession vs now uid sid cd =
     (case VoteModel_findOne (\<lambda>v. userId v = uid \<and> votingSessionId v = Some sid) vs of
        Some existingVote \<Rightarrow> Inl (Error ''User has already voted in this voting session'')
      | None \<Rightarrow>
          (let vote = new_VoteModel vs now uid (Some sid) (cd_candidateId cd)
                        (trim (cd_candidateName cd)) (cd_isCustomCandidate cd) in
           case VoteModel_save vs vote of
             Inl e \<Rightarrow> Inl e
           | Inr vs' \<Rightarrow> Inr (vs', VoteModel_findById (vote_id vote) vs')))"

definition deleteAllVotes :: "vote_doc list \<Rightarrow> vote_doc list" where
  "deleteAllVotes vs = VoteModel_deleteMany (\<lambda>v. True) vs"

definition deleteVotesByUserId :: "object_id \<Rightarrow> vote_doc list \<Rightarrow> vote_doc list" where
  "deleteVotesByUserId uid vs = VoteModel_deleteMany (\<lambda>v. userId v = uid) vs"

definition deleteSessionVotes :: "object_id \<Rightarrow> vote_doc list \<Rightarrow> vote_doc list" where
  "deleteSessionVotes sid vs = VoteModel_deleteMany (\<lambda>v. votingSessionId v = Some sid) vs"

definition deleteVotesBySessionId :: "object_id \<Rightarrow> vote_doc list \<Rightarrow> vote_doc list" where
  "deleteVotesBySessionId sid vs = VoteModel_deleteMany (\<lambda>v. votingSessionId v = Some sid) vs"

section \<open>models/VotingSession.js\<close>

definition VotingSession_findById :: "object_id \<Rightarrow> session_doc list \<Rightarrow> session_doc option" where
  "VotingSession_findById i ss = find (\<lambda>s. session_id s = i) ss"

definition isUserAssignedToSession :: "session_doc list \<Rightarrow> object_id \<Rightarrow> object_id \<Rightarrow> bool" where
  "isUserAssignedToSession ss sid uid =
     (case find (\<lambda>s. session_id s = sid) ss of
        None \<Rightarrow> False
      | Some session \<Rightarrow> list_ex (\<lambda>assignedUserId. assignedUserId = uid) (assignedUsers session))"

section \<open>controllers/voteController.js\<close>

text \<open>The body of a cast request; \<open>isCustomCandidate\<close> defaults to false.\<close>

record cast_body =
  body_votingSessionId :: "object_id option"
  body_candidateName :: "string option"
  body_candidateId :: "object_id option"
  body_isCustomCandidate :: bool

text \<open>The \<open>catch\<close> block of \<open>castVoteInSession\<close>.\<close>

definition castVoteInSession_catch :: "js_error \<Rightarrow> response" where
  "castVoteInSession_catch e =
     (if error_message e = ''User has already voted in this voting session''
      then json 409 (error_message e)
      else json 500 ''Server error during vote casting'')"

text \<open>
  \<open>castVoteInSession\<close>: the store before, the time of the request, the
  authenticated user (\<open>req.user\<close>) and the body; the store after and the response.
  The handler's \<open>new Date()\<close> and the \<open>Date.now\<close> default of the vote's
  timestamp read the same instant. The response carries the fields of the vote that
  the handler copies; the \<open>error\<close> field of the 500 response (development mode
  only) is left out.
\<close>

definition castVoteInSession :: "store \<Rightarrow> date \<Rightarrow> user_doc \<Rightarrow> cast_body \<Rightarrow> store \<times> response" where
  "castVoteInSession st now usr body =
     (case body_votingSessionId body of
        None \<Rightarrow> (st, json 400 ''Voting session ID is required'')
      | Some votingSessionId' \<Rightarrow>
        if name_missing (body_candidateName body)
        then (st, json 400 ''Candidate name is required'')
        else
          (case VotingSession_findById votingSessionId' (sessions st) of
             None \<Rightarrow> (st, json 404 ''Voting session not found'')
           | Some votingSession \<Rightarrow>
             if \<not> isUserAssignedToSession (sessions st) votingSessionId' (user_id usr)
             then (st, json 403 ''You are not assigned to this voting session'')
             else if status votingSession \<noteq> Active
             then (st, json 400 ''Voting session is not active'')
             else if (case startDate votingSession of None \<Rightarrow> False | Some d \<Rightarrow> now < d)
             then (st, json 400 ''Voting session has not started yet'')
             else if (case endDate votingSession of None \<Rightarrow> False | Some d \<Rightarrow> now > d)
             then (st, json 400 ''Voting session has ended'')
             else if body_isCustomCandidate body \<and> \<not> allowNewCandidates votingSession
             then (st, json 400 ''Adding new candidates is not allowed for this voting session'')
             else if \<not> body_isCustomCandidate body \<and> body_candidateId body \<noteq> None \<and>
                     \<not> list_ex (\<lambda>c. Some (cand_id c) = body_candidateId body)
                         (candidates votingSession)
             then (st, json 400 ''Candidate not found in this voting session'')
             else
               (let candidateData =
                      \<lparr>cd_candidateId = body_candidateId body,
                       cd_candidateName = trim (the (body_candidateName body)),
                       cd_isCustomCandidate = body_isCustomCandidate body\<rparr> in
                case Vote_castVoteInSession (votes st) now (user_id usr) votingSessionId' candidateData of
                  Inl e \<Rightarrow> (st, castVoteInSession_catch e)
                | Inr (vs', None) \<Rightarrow>
                    (st\<lparr>votes := vs'\<rparr>,
                     castVoteInSession_catch (TypeError ''Cannot read properties of null''))
                | Inr (vs', Some vote) \<Rightarrow>
                    (st\<lparr>votes := vs'\<rparr>,
                     \<lparr>res_status = 201, res_message = ''Vote cast successfully'',
                      res_payload = VotePayload
                        \<lparr>sum_id = vote_id vote,
                         sum_candidateName = candidateName vote,
                         sum_votingSessionId = votingSessionId vote,
                         sum_timestamp = timestamp vote,
                         sum_isCustomCandidate = isCustomCandidate vote\<rparr>\<rparr>))))"

text \<open>
  \<open>castVote\<close>, the legacy cast into the global poll (\<open>POST /api/votes\<close>).
\<close>

definition castVote :: "store \<Rightarrow> date \<Rightarrow> user_doc \<Rightarrow> string option \<Rightarrow> store \<times> response" where
  "castVote st now usr candidateName' =
     (if name_missing candidateName'
      then (st, json 400 ''Candidate name is required'')
      else
        (let trimmedCandidateName = trim (the candidateName') in
         case createVote (votes st) now (user_id usr) trimmedCandidateName of
           Inl e \<Rightarrow>
             (st, if error_message e = ''User has already voted''
                  then json 409 (error_message e)
                  else json 500 ''Server error during vote casting'')
         | Inr (vs', vote) \<Rightarrow>
             (st\<lparr>votes := vs'\<rparr>,
              \<lparr>res_status = 201, res_message = ''Vote cast successfully'',
               res_payload = LegacyVotePayload (vote_id vote) (candidateName vote) (timestamp vote)\<rparr>)))"

section \<open>models/Vote.js: aggregation and reads\<close>

text \<open>
  The aggregation pipeline, stage by stage. A group is the triple of its \<open>_id\<close>
  (the candidate name), its \<open>voteCount\<close> and its \<open>customCandidateCount\<close>. The
  \<open>$group\<close> stage runs over the matched documents one by one: a document adds 1
  to the count of its group (and 1 to the custom count when \<open>isCustomCandidate\<close>
  holds), or opens a new group. MongoDB leaves the order of the groups and the order
  among equal sort keys open; the model takes the order of first appearance and a
  stable sort.
\<close>

type_synonym group_doc = "string \<times> nat \<times> nat"

definition match_stage :: "object_id \<Rightarrow> vote_doc list \<Rightarrow> vote_doc list" where
  "match_stage sid vs = filter (\<lambda>v. votingSessionId v = Some sid) vs"

fun group_accumulate :: "vote_doc \<Rightarrow> group_doc list \<Rightarrow> group_doc list" where
  "group_accumulate v [] =
     [(candidateName v, 1, if isCustomCandidate v then 1 else 0)]"
| "group_accumulate v ((n, c, k) # gs) =
     (if n = candidateName v
      then (n, c + 1, k + (if isCustomCandidate v then 1 else 0)) # gs
      else (n, c, k) # group_accumulate v gs)"

definition group_stage :: "vote_doc list \<Rightarrow> group_doc list" where
  "group_stage vs = foldl (\<lambda>gs v. group_accumulate v gs) [] vs"

definition sort_stage :: "group_doc list \<Rightarrow> group_doc list" where
  "sort_stage gs = sort_key (\<lambda>g. - int (fst (snd g))) gs"

definition project_stage :: "group_doc list \<Rightarrow> result_entry list" where
  "project_stage gs =
     map (\<lambda>g. \<lparr>entry_candidateName = fst g, voteCount = fst (snd g),
                customCandidateCount = snd (snd g)\<rparr>) gs"

definition VoteModel_countDocuments :: "(vote_doc \<Rightarrow> bool) \<Rightarrow> vote_doc list \<Rightarrow> nat" where
  "VoteModel_countDocuments q vs = length (filter q vs)"

definition VoteModel_distinct_candidateName :: "(vote_doc \<Rightarrow> bool) \<Rightarrow> vote_doc list \<Rightarrow> string list" where
  "VoteModel_distinct_candidateName q vs = remdups (map candidateName (filter q vs))"

definition Vote_getSessionResults :: "vote_doc list \<Rightarrow> object_id \<Rightarrow> session_results" where
  "Vote_getSessionResults vs sid =
     (let results' = project_stage (sort_stage (group_stage (match_stage sid vs)));
          totalVotes' = VoteModel_countDocuments (\<lambda>v. votingSessionId v = Some sid) vs;
          candidates' = VoteModel_distinct_candidateName (\<lambda>v. votingSessionId v = Some sid) vs
      in \<lparr>results = results', totalVotes = totalVotes',
          totalCandidates = length candidates', candidate_names = sort candidates'\<rparr>)"

text \<open>
  \<open>Vote.getSessionVotes\<close>: the votes of the session, newest first, each with its
  voter populated from the user collection (\<open>username\<close> and \<open>email\<close>; \<open>null\<close>
  when the user is gone).
\<close>

definition populate_user :: "user_doc list \<Rightarrow> object_id \<Rightarrow> populated_user option" where
  "populate_user us uid =
     (case find (\<lambda>u. user_id u = uid) us of
        None \<Rightarrow> None
      | Some u \<Rightarrow> Some \<lparr>pop_id = user_id u, pop_username = username u, pop_email = email u\<rparr>)"

definition Vote_getSessionVotes :: "vote_doc list \<Rightarrow> object_id \<Rightarrow> vote_doc list" where
  "Vote_getSessionVotes vs sid =
     sort_key (\<lambda>v. - timestamp v) (filter (\<lambda>v. votingSessionId v = Some sid) vs)"

section \<open>controllers/voteController.js: results\<close>

text \<open>\<open>getSessionResults\<close> of the vote controller (\<open>GET /:votingSessionId/results\<close>).\<close>

definition getSessionResults :: "store \<Rightarrow> user_doc \<Rightarrow> object_id \<Rightarrow> response" where
  "getSessionResults st usr votingSessionId' =
     (case VotingSession_findById votingSessionId' (sessions st) of
        None \<Rightarrow> json 404 ''Voting session not found''
      | Some votingSession \<Rightarrow>
          if role usr \<noteq> RoleAdmin \<and>
             \<not> isUserAssignedToSession (sessions st) votingSessionId' (user_id usr)
          then json 403 ''You are not assigned to this voting session''
          else \<lparr>res_status = 200,
                res_message = ''Voting session results retrieved successfully'',
                res_payload = ResultsPayload
                  \<lparr>ss_id = session_id votingSession, ss_title = title votingSession,
                   ss_status = status votingSession\<rparr>
                  (Vote_getSessionResults (votes st) votingSessionId')\<rparr>)"

section \<open>controllers/votingSessionController.js\<close>

text \<open>
  \<open>getVotingSessionById\<close> (\<open>GET /:id\<close>). The handler receives the request with
  its authenticated user and never reads it.
\<close>

definition getVotingSessionById :: "store \<Rightarrow> user_doc \<Rightarrow> object_id \<Rightarrow> response" where
  "getVotingSessionById st usr id' =
     (case VotingSession_findById id' (sessions st) of
        None \<Rightarrow> json 404 ''Voting session not found''
      | Some votingSession \<Rightarrow>
          (let results' = Vote_getSessionResults (votes st) id';
               votes' = Vote_getSessionVotes (votes st) id'
           in \<lparr>res_status = 200,
               res_message = ''Voting session retrieved successfully'',
               res_payload = SessionDetail votingSession results'
                 (map (\<lambda>vote. \<lparr>view_id = vote_id vote,
                                 view_candidateName = candidateName vote,
                                 view_user = populate_user (users st) (userId vote),
                                 view_timestamp = timestamp vote,
                                 view_isCustomCandidate = isCustomCandidate vote\<rparr>) votes')\<rparr>))"

section \<open>models/User.js and controllers/userController.js\<close>

definition User_findById :: "object_id \<Rightarrow> user_doc list \<Rightarrow> user_doc option" where
  "User_findById i us = find (\<lambda>u. user_id u = i) us"

definition User_deleteById :: "object_id \<Rightarrow> user_doc list \<Rightarrow> user_doc list" where
  "User_deleteById i us = filter (\<lambda>u. user_id u \<noteq> i) us"

text \<open>
  Reading a variable: the value bound to the name in scope, or a
  \<open>ReferenceError\<close> when no declaration binds it.
\<close>

definition read_variable :: "(string \<times> object_id) list \<Rightarrow> string \<Rightarrow> js_error + object_id" where
  "read_variable scope x =
     (case map_of scope x of None \<Rightarrow> Inl (ReferenceError x) | Some v \<Rightarrow> Inr v)"

text \<open>
  The identifier-valued variables in scope inside \<open>deleteUser\<close>: the handler
  declares \<open>id\<close> (from \<open>req.params\<close>) and nothing else; the module declares
  \<open>User\<close>, \<open>Vote\<close> and the handlers.
\<close>

definition deleteUser_scope :: "object_id \<Rightarrow> (string \<times> object_id) list" where
  "deleteUser_scope id' = [(''id'', id')]"

text \<open>
  \<open>deleteUser\<close> (\<open>DELETE /api/users/:id\<close>). After the self-deletion guard the
  handler reads \<open>userId\<close>. The calls to the models are not awaited there: each
  returns a promise, which is neither \<open>null\<close> nor has a \<open>role\<close>, a
  \<open>username\<close> or an \<open>email\<close>, so none of the guards after it can fire.
\<close>

definition deleteUser :: "store \<Rightarrow> user_doc \<Rightarrow> object_id \<Rightarrow> store \<times> response" where
  "deleteUser st usr id' =
     (if id' = user_id usr
      then (st, json 403 ''Cannot delete your own account'')
      else
        (case read_variable (deleteUser_scope id') ''userId'' of
           Inl e \<Rightarrow> (st, json 500 ''Server error deleting user'')
         | Inr userId' \<Rightarrow>
             (st\<lparr>votes := deleteVotesByUserId userId' (votes st),
                 users := User_deleteById userId' (users st)\<rparr>,
              \<lparr>res_status = 200,
               res_message = ''User and associated votes deleted successfully'',
               res_payload = DeletedUserPayload
                 \<lparr>del_id = None, del_username = None, del_email = None\<rparr>\<rparr>)))"

section \<open>middleware/auth.js\<close>

text \<open>\<open>String.prototype.split(' ')\<close>.\<close>

fun split_space :: "string \<Rightarrow> string list" where
  "split_space [] = [[]]"
| "split_space (c # cs) =
     (if c = CHR '' '' then [] # split_space cs
      else (case split_space cs of
              [] \<Rightarrow> [[c]]
            | w # ws \<Rightarrow> (c # w) # ws))"

text \<open>
  \<open>authHeader && authHeader.split(' ')[1]\<close>, with \<open>None\<close> for every falsy
  outcome (no header, an empty header, no second part, an empty second part).
\<close>

definition bearer_token :: "string option \<Rightarrow> string option" where
  "bearer_token authHeader =
     (case authHeader of
        None \<Rightarrow> None
      | Some h \<Rightarrow>
          if h = [] then None
          else (case split_space h of
                  a # token # rest \<Rightarrow> if token = [] then None else Some token
                | _ \<Rightarrow> None))"

text \<open>
  \<open>authenticateToken\<close>. \<open>jwt_verify\<close> stands for \<open>jwt.verify(token,
  process.env.JWT_SECRET)\<close> of the jsonwebtoken library: \<open>None\<close> when it throws
  (malformed, expired or wrongly signed token), else the \<open>id\<close> of the decoded
  payload. The result is the response that ends the request, or the user stored
  in \<open>req.user\<close> before \<open>next()\<close>.
\<close>

definition authenticateToken ::
  "(string \<Rightarrow> object_id option) \<Rightarrow> user_doc list \<Rightarrow> string option \<Rightarrow> response + user_doc" where
  "authenticateToken jwt_verify us authHeader =
     (case bearer_token authHeader of
        None \<Rightarrow> Inl (json 401 ''Access token required'')
      | Some token \<Rightarrow>
          (case jwt_verify token of
             None \<Rightarrow> Inl (json 403 ''Invalid or expired token'')
           | Some decoded_id \<Rightarrow>
               (case User_findById decoded_id us of
                  None \<Rightarrow> Inl (json 404 ''User not found'')
                | Some fullUser \<Rightarrow> Inr fullUser)))"

definition requireAdmin :: "user_doc \<Rightarrow> response option" where
  "requireAdmin usr =
     (if role usr \<noteq> RoleAdmin then Some (json 403 ''Admin access required'') else None)"

definition requireUser :: "user_doc \<Rightarrow> response option" where
  "requireUser usr =
     (if role usr \<noteq> RoleAdmin \<and> role usr \<noteq> RoleUser
      then Some (json 403 ''User access required'') else None)"

section \<open>Routes\<close>

text \<open>
  The middleware chains of routes/votingSessions.js, routes/votes.js and
  routes/users.js for the endpoints verified here.
\<close>

definition route_get_session ::
  "(string \<Rightarrow> object_id option) \<Rightarrow> store \<Rightarrow> string option \<Rightarrow> object_id \<Rightarrow> response" where
  "route_get_session jwt_verify st authHeader id' =
     (case authenticateToken jwt_verify (users st) authHeader of
        Inl r \<Rightarrow> r
      | Inr usr \<Rightarrow> getVotingSessionById st usr id')"

definition route_get_session_results ::
  "(string \<Rightarrow> object_id option) \<Rightarrow> store \<Rightarrow> string option \<Rightarrow> object_id \<Rightarrow> response" where
  "route_get_session_results jwt_verify st authHeader id' =
     (case authenticateToken jwt_verify (users st) authHeader of
        Inl r \<Rightarrow> r
      | Inr usr \<Rightarrow> getSessionResults st usr id')"

definition route_cast_vote ::
  "(string \<Rightarrow> object_id option) \<Rightarrow> store \<Rightarrow> date \<Rightarrow> string option \<Rightarrow> string option
     \<Rightarrow> store \<times> response" where
  "route_cast_vote jwt_verify st now authHeader candidateName' =
     (case authenticateToken jwt_verify (users st) authHeader of
        Inl r \<Rightarrow> (st, r)
      | Inr usr \<Rightarrow>
          (case requireUser usr of
             Some r \<Rightarrow> (st, r)
           | None \<Rightarrow> castVote st now usr candidateName'))"

definition route_delete_user ::
  "(string \<Rightarrow> object_id option) \<Rightarrow> store \<Rightarrow> string option \<Rightarrow> object_id \<Rightarrow> store \<times> response" where
  "route_delete_user jwt_verify st authHeader id' =
     (case authenticateToken jwt_verify (users st) authHeader of
        Inl r \<Rightarrow> (st, r)
      | Inr usr \<Rightarrow>
          (case requireAdmin usr of
             Some r \<Rightarrow> (st, r)
           | None \<Rightarrow> deleteUser st usr id'))"

section \<open>Auxiliary predicates\<close>

text \<open>The user has a ballot in the session.\<close>

definition has_ballot :: "vote_doc list \<Rightarrow> object_id \<Rightarrow> object_id \<Rightarrow> bool" where
  "has_ballot vs uid sid = list_ex (\<lambda>v. userId v = uid \<and> votingSessionId v = Some sid) vs"

text \<open>
  The vote collection is written through the \<open>Vote\<close> class only (the Mongoose
  model is not exported): the collections reachable from the empty one by its
  six writing operations.
\<close>

inductive reachable :: "vote_doc list \<Rightarrow> bool" where
  reachable_empty: "reachable []"
| reachable_createVote:
    "reachable vs \<Longrightarrow> createVote vs now uid name = Inr (vs', v) \<Longrightarrow> reachable vs'"
| reachable_castVoteInSession:
    "reachable vs \<Longrightarrow> Vote_castVoteInSession vs now uid sid cd = Inr (vs', r) \<Longrightarrow> reachable vs'"
| reachable_deleteAllVotes:
    "reachable vs \<Longrightarrow> reachable (deleteAllVotes vs)"
| reachable_deleteVotesByUserId:
    "reachable vs \<Longrightarrow> reachable (deleteVotesByUserId uid vs)"
| reachable_deleteSessionVotes:
    "reachable vs \<Longrightarrow> reachable (deleteSessionVotes sid vs)"
| reachable_deleteVotesBySessionId:
    "reachable vs \<Longrightarrow> reachable (deleteVotesBySessionId sid vs)"

text \<open>The number of ballots of a user in a session.\<close>

definition ballot_count :: "vote_doc list \<Rightarrow> object_id \<Rightarrow> object_id \<Rightarrow> nat" where
  "ballot_count vs uid sid =
     length (filter (\<lambda>v. userId v = uid \<and> votingSessionId v = Some sid) vs)"

text \<open>
  The error kinds of the specification, read off a response: the HTTP status decides
  the kind (section 7 of the specification), and among the 400 responses of a cast
  the failures of the session's status, of its time window and of its
  \<open>allowNewCandidates\<close> flag are \<open>InvalidState\<close> (steps 3 to 5 of the
  specification's validation sequence), the others \<open>InvalidInput\<close>.
\<close>

datatype error_kind =
  InvalidInput | InvalidState | Unauthenticated | Forbidden | NotFound | Conflict | Internal

definition spec_error_kind :: "response \<Rightarrow> error_kind option" where
  "spec_error_kind r =
     (if res_status r = 400 then
        (if res_message r = ''Voting session is not active''
            \<or> res_message r = ''Voting session has not started yet''
            \<or> res_message r = ''Voting session has ended''
            \<or> res_message r = ''Adding new candidates is not allowed for this voting session''
         then Some InvalidState else Some InvalidInput)
      else if res_status r = 401 then Some Unauthenticated
      else if res_status r = 403 then Some Forbidden
      else if res_status r = 404 then Some NotFound
      else if res_status r = 409 then Some Conflict
      else if res_status r = 500 then Some Internal
      else None)"

section \<open>A concrete store\<close>

text \<open>
  An administrator, a second administrator and three users; session 10 is active
  from time 1000 to time 2000 with the candidates Alice and Bob, the voters 2 and 3
  and no new candidates allowed; session 11 is a draft and session 12 is closed.
\<close>

definition ex_admin :: user_doc where
  "ex_admin = \<lparr>user_id = 1, username = ''admin'', email = ''admin@voting-app.com'', role = RoleAdmin\<rparr>"

definition ex_alice :: user_doc where
  "ex_alice = \<lparr>user_id = 2, username = ''alice'', email = ''alice@example.com'', role = RoleUser\<rparr>"

definition ex_bob :: user_doc where
  "ex_bob = \<lparr>user_id = 3, username = ''bob'', email = ''bob@example.com'', role = RoleUser\<rparr>"

definition ex_carol :: user_doc where
  "ex_carol = \<lparr>user_id = 4, username = ''carol'', email = ''carol@example.com'', role = RoleUser\<rparr>"

definition ex_admin2 :: user_doc where
  "ex_admin2 = \<lparr>user_id = 5, username = ''admin2'', email = ''admin2@example.com'', role = RoleAdmin\<rparr>"

definition ex_candidates :: "candidate_doc list" where
  "ex_candidates =
     [\<lparr>cand_id = 100, cand_name = ''Alice'', cand_description = []\<rparr>,
      \<lparr>cand_id = 101, cand_name = ''Bob'', cand_description = []\<rparr>]"

definition ex_session :: "object_id \<Rightarrow> session_status \<Rightarrow> session_doc" where
  "ex_session i s =
     \<lparr>session_id = i, title = ''Board election'', candidates = ex_candidates,
      assignedUsers = [2, 3], status = s, startDate = Some 1000, endDate = Some 2000,
      allowNewCandidates = False, createdBy = 1\<rparr>"

definition ex_ballot :: "object_id \<Rightarrow> object_id \<Rightarrow> string \<Rightarrow> date \<Rightarrow> vote_doc" where
  "ex_ballot i uid name t =
     \<lparr>vote_id = i, userId = uid, votingSessionId = Some 10, candidateId = None,
      candidateName = name, timestamp = t, isCustomCandidate = False\<rparr>"

definition ex_store :: "vote_doc list \<Rightarrow> store" where
  "ex_store vs =
     \<lparr>users = [ex_admin, ex_alice, ex_bob, ex_carol, ex_admin2],
      sessions = [ex_session 10 Active, ex_session 11 Draft, ex_session 12 Closed],
      votes = vs\<rparr>"

definition ex_body :: "object_id option \<Rightarrow> string option \<Rightarrow> cast_body" where
  "ex_body sid name =
     \<lparr>body_votingSessionId = sid, body_candidateName = name, body_candidateId = None,
      body_isCustomCandidate = False\<rparr>"

text \<open>A token verifier for the examples: the token \<open>tN\<close> is valid for user N.\<close>

definition ex_verify :: "string \<Rightarrow> object_id option" where
  "ex_verify token =
     (if token = ''t1'' then Some 1 else if token = ''t2'' then Some 2
      else if token = ''t4'' then Some 4 else if token = ''t9'' then Some 9 else None)"

section \<open>Auxiliary lemmas\<close>

lemmas ex_defs = ex_admin_def ex_alice_def ex_bob_def ex_carol_def ex_admin2_def
  ex_candidates_def ex_session_def ex_ballot_def ex_store_def ex_body_def

lemma dropWhile_id_hd: "xs \<noteq> [] \<Longrightarrow> \<not> P (hd xs) \<Longrightarrow> dropWhile P xs = xs"
  by (cases xs) auto

lemma trim_idem: "trim (trim s) = trim s"
proof (cases "trim s = []")
  case True
  have "trim [] = []" by (simp add: trim_def)
  with True show ?thesis by simp
next
  case False
  let ?a = "dropWhile is_whitespace s"
  let ?b = "dropWhile is_whitespace (rev ?a)"
  have t: "trim s = rev ?b" by (simp add: trim_def)
  from False t have b: "?b \<noteq> []" by simp
  then have hb: "\<not> is_whitespace (hd ?b)" by (rule hd_dropWhile)
  have a: "?a \<noteq> []"
  proof
    assume e: "?a = []"
    have "?b = []" unfolding e by simp
    with b show False by blast
  qed
  then have ha: "\<not> is_whitespace (hd ?a)" by (rule hd_dropWhile)
  have last_b: "last ?b = last (rev ?a)"
    using b by (metis append_Nil2 last_appendR takeWhile_dropWhile_id)
  have "hd (rev ?b) = last ?b" using b by (simp add: hd_rev)
  also have "\<dots> = hd ?a" using last_b a by (simp add: last_rev)
  finally have "\<not> is_whitespace (hd (rev ?b))" using ha by simp
  then have 1: "dropWhile is_whitespace (rev ?b) = rev ?b"
    using b by (intro dropWhile_id_hd) auto
  have 2: "dropWhile is_whitespace ?b = ?b"
    using b hb by (intro dropWhile_id_hd) auto
  have "trim (rev ?b) = rev (dropWhile is_whitespace (rev (dropWhile is_whitespace (rev ?b))))"
    by (rule trim_def)
  also have "\<dots> = rev (dropWhile is_whitespace (rev (rev ?b)))"
    by (simp only: 1)
  also have "\<dots> = rev ?b"
    by (simp only: rev_rev_ident 2)
  finally show ?thesis by (simp only: t)
qed

text \<open>
  A name is blank exactly when every character of it is white space; the no-break
  space counts.
\<close>

lemma trim_empty_iff: "trim s = [] \<longleftrightarrow> (\<forall>c \<in> set s. is_whitespace c)"
proof
  assume e: "trim s = []"
  show "\<forall>c \<in> set s. is_whitespace c"
  proof (rule ccontr)
    assume "\<not> (\<forall>c \<in> set s. is_whitespace c)"
    then have ne: "dropWhile is_whitespace s \<noteq> []" by (simp add: dropWhile_eq_Nil_conv)
    then have "\<not> is_whitespace (hd (dropWhile is_whitespace s))" by (rule hd_dropWhile)
    moreover have "hd (dropWhile is_whitespace s) \<in> set (rev (dropWhile is_whitespace s))"
      using ne by simp
    ultimately have "dropWhile is_whitespace (rev (dropWhile is_whitespace s)) \<noteq> []"
      by (auto simp: dropWhile_eq_Nil_conv)
    with e show False by (simp add: trim_def)
  qed
next
  assume "\<forall>c \<in> set s. is_whitespace c"
  then have d: "dropWhile is_whitespace s = []" by (simp add: dropWhile_eq_Nil_conv)
  show "trim s = []" unfolding trim_def d by simp
qed

lemma name_missing_iff:
  "name_missing n \<longleftrightarrow> (case n of None \<Rightarrow> True | Some s \<Rightarrow> \<forall>c \<in> set s. is_whitespace c)"
  by (cases n) (auto simp: name_missing_def trim_empty_iff)

lemma name_missing_nbsp: "name_missing (Some [CHR 0xA0])"
  by (simp add: name_missing_iff is_whitespace_def)

lemma name_present_trim:
  "\<not> name_missing n \<Longrightarrow> \<exists>s. n = Some s \<and> trim s \<noteq> []"
  by (cases n) (auto simp: name_missing_def)

lemma find_append:
  "find P (xs @ ys) = (case find P xs of None \<Rightarrow> find P ys | Some x \<Rightarrow> Some x)"
  by (induction xs) auto

lemma fresh_id_gt: "v \<in> set vs \<Longrightarrow> vote_id v < fresh_id vs"
  by (induction vs) (auto simp: fresh_id_def)

lemma findById_fresh:
  assumes "vote_id v = fresh_id vs"
  shows "VoteModel_findById (fresh_id vs) (vs @ [v]) = Some v"
proof -
  have "\<not> (\<exists>x. x \<in> set vs \<and> vote_id x = fresh_id vs)"
    using fresh_id_gt by fastforce
  then have "find (\<lambda>w. vote_id w = fresh_id vs) vs = None"
    by (simp add: find_None_iff)
  then show ?thesis using assms by (simp add: VoteModel_findById_def find_append)
qed

text \<open>The two outcomes of \<open>Vote.castVoteInSession\<close>.\<close>

lemma Vote_castVoteInSession_voted:
  assumes "has_ballot vs uid sid"
  shows "Vote_castVoteInSession vs now uid sid cd =
           Inl (Error ''User has already voted in this voting session'')"
proof -
  from assms obtain e where
    "find (\<lambda>v. userId v = uid \<and> votingSessionId v = Some sid) vs = Some e"
    by (cases "find (\<lambda>v. userId v = uid \<and> votingSessionId v = Some sid) vs")
       (auto simp: has_ballot_def find_None_iff list_ex_iff)
  then show ?thesis
    by (simp add: Vote_castVoteInSession_def VoteModel_findOne_def)
qed

lemma Vote_castVoteInSession_new:
  assumes "\<not> has_ballot vs uid sid" and "trim (cd_candidateName cd) \<noteq> []"
  shows "Vote_castVoteInSession vs now uid sid cd =
           (let vote = new_VoteModel vs now uid (Some sid) (cd_candidateId cd)
                         (trim (cd_candidateName cd)) (cd_isCustomCandidate cd)
            in Inr (vs @ [vote], Some vote))"
proof -
  have none: "find (\<lambda>v. userId v = uid \<and> votingSessionId v = Some sid) vs = None"
    using assms(1) by (simp add: has_ballot_def find_None_iff list_ex_iff)
  let ?vote = "new_VoteModel vs now uid (Some sid) (cd_candidateId cd)
                 (trim (cd_candidateName cd)) (cd_isCustomCandidate cd)"
  have nohit: "\<not> unique_index_hit vs ?vote"
    using assms(1) by (simp add: unique_index_hit_def has_ballot_def new_VoteModel_def)
  have name: "candidateName ?vote \<noteq> []"
    using assms(2) by (simp add: new_VoteModel_def trim_idem)
  have save: "VoteModel_save vs ?vote = Inr (vs @ [?vote])"
    using nohit name by (simp add: VoteModel_save_def new_VoteModel_def)
  have "vote_id ?vote = fresh_id vs" by (simp add: new_VoteModel_def)
  then have "VoteModel_findById (vote_id ?vote) (vs @ [?vote]) = Some ?vote"
    using findById_fresh by metis
  then show ?thesis
    using none save by (simp add: Vote_castVoteInSession_def VoteModel_findOne_def Let_def)
qed

text \<open>The controller \<open>castVoteInSession\<close> once every check has passed.\<close>

lemma castVoteInSession_accepts:
  assumes sid: "body_votingSessionId body = Some sid"
    and name: "\<not> name_missing (body_candidateName body)"
    and sess: "VotingSession_findById sid (sessions st) = Some s"
    and asg: "isUserAssignedToSession (sessions st) sid (user_id usr)"
    and act: "status s = Active"
    and started: "case startDate s of None \<Rightarrow> True | Some d \<Rightarrow> d \<le> now"
    and not_ended: "case endDate s of None \<Rightarrow> True | Some d \<Rightarrow> now \<le> d"
    and custom: "body_isCustomCandidate body \<longrightarrow> allowNewCandidates s"
    and cand: "body_isCustomCandidate body \<or> body_candidateId body = None \<or>
               list_ex (\<lambda>c. Some (cand_id c) = body_candidateId body) (candidates s)"
    and fresh: "\<not> has_ballot (votes st) (user_id usr) sid"
  shows "castVoteInSession st now usr body =
           (st\<lparr>votes := votes st @
                 [\<lparr>vote_id = fresh_id (votes st), userId = user_id usr,
                   votingSessionId = Some sid, candidateId = body_candidateId body,
                   candidateName = trim (the (body_candidateName body)), timestamp = now,
                   isCustomCandidate = body_isCustomCandidate body\<rparr>]\<rparr>,
            \<lparr>res_status = 201, res_message = ''Vote cast successfully'',
             res_payload = VotePayload
               \<lparr>sum_id = fresh_id (votes st),
                sum_candidateName = trim (the (body_candidateName body)),
                sum_votingSessionId = Some sid, sum_timestamp = now,
                sum_isCustomCandidate = body_isCustomCandidate body\<rparr>\<rparr>)"
proof -
  from name obtain n where n: "body_candidateName body = Some n" "trim n \<noteq> []"
    using name_present_trim by blast
  have nm: "name_missing (Some n) = False" using name n by simp
  let ?cd = "\<lparr>cd_candidateId = body_candidateId body, cd_candidateName = trim n,
              cd_isCustomCandidate = body_isCustomCandidate body\<rparr>"
  have "trim (cd_candidateName ?cd) \<noteq> []" using n by (simp add: trim_idem)
  from Vote_castVoteInSession_new[OF fresh this, of now]
  have model: "Vote_castVoteInSession (votes st) now (user_id usr) sid ?cd =
      Inr (votes st @ [new_VoteModel (votes st) now (user_id usr) (Some sid) (body_candidateId body)
                          (trim n) (body_isCustomCandidate body)],
           Some (new_VoteModel (votes st) now (user_id usr) (Some sid) (body_candidateId body)
                          (trim n) (body_isCustomCandidate body)))"
    by (simp add: Let_def trim_idem)
  have s1: "\<not> (case startDate s of None \<Rightarrow> False | Some d \<Rightarrow> now < d)"
    using started by (cases "startDate s") auto
  have s2: "\<not> (case endDate s of None \<Rightarrow> False | Some d \<Rightarrow> now > d)"
    using not_ended by (cases "endDate s") auto
  have s3: "\<not> (body_isCustomCandidate body \<and> \<not> allowNewCandidates s)"
    using custom by simp
  have s4: "\<not> (\<not> body_isCustomCandidate body \<and> body_candidateId body \<noteq> None \<and>
                 \<not> list_ex (\<lambda>c. Some (cand_id c) = body_candidateId body) (candidates s))"
    using cand by auto
  show ?thesis
    unfolding castVoteInSession_def
    by (simp only: sid nm sess asg act s1 s2 s3 s4 n model option.case if_False if_True
          not_True_eq_False not_False_eq_True Let_def sum.case prod.case option.sel
          simp_thms)
       (simp add: new_VoteModel_def trim_idem)
qed

lemma castVoteInSession_rejects_second:
  assumes sid: "body_votingSessionId body = Some sid"
    and name: "\<not> name_missing (body_candidateName body)"
    and sess: "VotingSession_findById sid (sessions st) = Some s"
    and asg: "isUserAssignedToSession (sessions st) sid (user_id usr)"
    and act: "status s = Active"
    and started: "case startDate s of None \<Rightarrow> True | Some d \<Rightarrow> d \<le> now"
    and not_ended: "case endDate s of None \<Rightarrow> True | Some d \<Rightarrow> now \<le> d"
    and custom: "body_isCustomCandidate body \<longrightarrow> allowNewCandidates s"
    and cand: "body_isCustomCandidate body \<or> body_candidateId body = None \<or>
               list_ex (\<lambda>c. Some (cand_id c) = body_candidateId body) (candidates s)"
    and voted: "has_ballot (votes st) (user_id usr) sid"
  shows "castVoteInSession st now usr body =
           (st, json 409 ''User has already voted in this voting session'')"
proof -
  have s1: "\<not> (case startDate s of None \<Rightarrow> False | Some d \<Rightarrow> now < d)"
    using started by (cases "startDate s") auto
  have s2: "\<not> (case endDate s of None \<Rightarrow> False | Some d \<Rightarrow> now > d)"
    using not_ended by (cases "endDate s") auto
  have s3: "\<not> (body_isCustomCandidate body \<and> \<not> allowNewCandidates s)"
    using custom by simp
  have s4: "\<not> (\<not> body_isCustomCandidate body \<and> body_candidateId body \<noteq> None \<and>
                 \<not> list_ex (\<lambda>c. Some (cand_id c) = body_candidateId body) (candidates s))"
    using cand by auto
  have c: "castVoteInSession_catch (Error ''User has already voted in this voting session'') =
        json 409 ''User has already voted in this voting session''"
    by (simp add: castVoteInSession_catch_def)
  show ?thesis
    unfolding castVoteInSession_def
    by (simp only: sid name sess asg act s1 s2 s3 s4 Vote_castVoteInSession_voted[OF voted] c
          option.case if_False if_True not_True_eq_False not_False_eq_True Let_def sum.case
          simp_thms)
qed

section \<open>C1: the order of the checks of a session-scoped cast\<close>

text \<open>
  C1, as the source has it: the first check of \<open>castVoteInSession\<close> is that the
  request names a session (else 400), the second that the trimmed candidate name is
  not empty (else 400 \<open>Candidate name is required\<close>), and only the third looks
  the session up (else 404). The first failing check decides the response and the
  store is left as it was. So an empty candidate name is rejected with 400 whether
  or not the session exists.
\<close>

theorem castVoteInSession_validation_order:
  "(body_votingSessionId body = None \<longrightarrow>
      castVoteInSession st now usr body = (st, json 400 ''Voting session ID is required''))
   \<and> (body_votingSessionId body = Some sid \<and> name_missing (body_candidateName body) \<longrightarrow>
      castVoteInSession st now usr body = (st, json 400 ''Candidate name is required''))
   \<and> (body_votingSessionId body = Some sid \<and> \<not> name_missing (body_candidateName body) \<and>
      VotingSession_findById sid (sessions st) = None \<longrightarrow>
      castVoteInSession st now usr body = (st, json 404 ''Voting session not found''))"
  by (simp add: castVoteInSession_def)

text \<open>
  The three checks at concrete requests, each on the store without ballots; a name
  of two spaces and a name that is one no-break space are both blank.
\<close>

theorem castVoteInSession_validation_order_witness:
  "castVoteInSession (ex_store []) 1500 ex_alice (ex_body None (Some ''Alice''))
     = (ex_store [], json 400 ''Voting session ID is required'')
   \<and> castVoteInSession (ex_store []) 1500 ex_alice (ex_body (Some 99) (Some ''  ''))
     = (ex_store [], json 400 ''Candidate name is required'')
   \<and> castVoteInSession (ex_store []) 1500 ex_alice (ex_body (Some 99) (Some ''Alice''))
     = (ex_store [], json 404 ''Voting session not found'')
   \<and> castVoteInSession (ex_store []) 1500 ex_alice (ex_body (Some 99) (Some [CHR 0xA0]))
     = (ex_store [], json 400 ''Candidate name is required'')"
  using castVoteInSession_validation_order[of "ex_body None (Some ''Alice'')" "ex_store []" 1500 ex_alice 99]
    castVoteInSession_validation_order[of "ex_body (Some 99) (Some ''  '')" "ex_store []" 1500 ex_alice 99]
    castVoteInSession_validation_order[of "ex_body (Some 99) (Some ''Alice'')" "ex_store []" 1500 ex_alice 99]
    castVoteInSession_validation_order[of "ex_body (Some 99) (Some [CHR 0xA0])" "ex_store []" 1500 ex_alice 99]
  by (simp add: ex_defs name_missing_def trim_def is_whitespace_def VotingSession_findById_def)

text \<open>
  C1 as stated fails: session 99 does not exist and the candidate name is empty, and
  the response is 400 \<open>Candidate name is required\<close>, not 404.
\<close>

theorem empty_name_missing_session_counterexample:
  "VotingSession_findById 99 (sessions (ex_store [])) = None
   \<and> name_missing (body_candidateName (ex_body (Some 99) (Some [])))
   \<and> castVoteInSession (ex_store []) 1500 ex_alice (ex_body (Some 99) (Some []))
       = (ex_store [], json 400 ''Candidate name is required'')
   \<and> res_status (snd (castVoteInSession (ex_store []) 1500 ex_alice (ex_body (Some 99) (Some []))))
       \<noteq> 404"
  by (simp add: castVoteInSession_def ex_defs name_missing_def VotingSession_findById_def json_def)

section \<open>C2: one ballot per user and session\<close>

subsection \<open>The unique index\<close>

lemma createVote_no_insert: "createVote vs now uid name \<noteq> Inr x"
  by (auto simp: createVote_def VoteModel_save_def new_VoteModel_def Let_def
           split: option.splits if_splits sum.splits)

lemma save_keeps_index:
  assumes "VoteModel_save vs v = Inr vs'"
    and "distinct (map (\<lambda>v. (userId v, votingSessionId v)) vs)"
  shows "distinct (map (\<lambda>v. (userId v, votingSessionId v)) vs')"
proof -
  from assms(1) have vs': "vs' = vs @ [v]" and nohit: "\<not> unique_index_hit vs v"
    by (auto simp: VoteModel_save_def split: if_splits)
  from nohit have "(userId v, votingSessionId v) \<notin> set (map (\<lambda>v. (userId v, votingSessionId v)) vs)"
    by (auto simp: unique_index_hit_def list_ex_iff)
  with assms(2) show ?thesis by (simp add: vs')
qed

lemma cast_keeps_index:
  assumes "Vote_castVoteInSession vs now uid sid cd = Inr (vs', r)"
    and "distinct (map (\<lambda>v. (userId v, votingSessionId v)) vs)"
  shows "distinct (map (\<lambda>v. (userId v, votingSessionId v)) vs')"
proof -
  from assms(1) obtain v where "VoteModel_save vs v = Inr vs'"
    by (auto simp: Vote_castVoteInSession_def Let_def split: option.splits sum.splits)
  then show ?thesis using assms(2) by (rule save_keeps_index)
qed

lemma deleteMany_keeps_index:
  "distinct (map (\<lambda>v. (userId v, votingSessionId v)) vs) \<Longrightarrow>
   distinct (map (\<lambda>v. (userId v, votingSessionId v)) (VoteModel_deleteMany q vs))"
  by (simp add: VoteModel_deleteMany_def distinct_map_filter)

lemma reachable_index:
  "reachable vs \<Longrightarrow> distinct (map (\<lambda>v. (userId v, votingSessionId v)) vs)"
proof (induction rule: reachable.induct)
  case reachable_empty
  show ?case by simp
next
  case (reachable_createVote vs now uid name vs' v)
  then show ?case using createVote_no_insert by blast
next
  case (reachable_castVoteInSession vs now uid sid cd vs' r)
  then show ?case using cast_keeps_index by blast
next
  case (reachable_deleteAllVotes vs)
  from reachable_deleteAllVotes.IH show ?case
    unfolding deleteAllVotes_def by (rule deleteMany_keeps_index)
next
  case (reachable_deleteVotesByUserId vs uid)
  from reachable_deleteVotesByUserId.IH show ?case
    unfolding deleteVotesByUserId_def by (rule deleteMany_keeps_index)
next
  case (reachable_deleteSessionVotes vs sid)
  from reachable_deleteSessionVotes.IH show ?case
    unfolding deleteSessionVotes_def by (rule deleteMany_keeps_index)
next
  case (reachable_deleteVotesBySessionId vs sid)
  from reachable_deleteVotesBySessionId.IH show ?case
    unfolding deleteVotesBySessionId_def by (rule deleteMany_keeps_index)
qed

lemma distinct_key_count: "distinct (map f xs) \<Longrightarrow> length (filter (\<lambda>x. f x = k) xs) \<le> 1"
proof (induction xs)
  case Nil
  show ?case by simp
next
  case (Cons x xs)
  show ?case
  proof (cases "f x = k")
    case True
    with Cons.prems have "\<forall>y\<in>set xs. f y \<noteq> k" by (fastforce simp: image_iff)
    then have "filter (\<lambda>x. f x = k) xs = []" by (simp add: filter_empty_conv)
    with True show ?thesis by simp
  next
    case False
    with Cons show ?thesis by simp
  qed
qed

lemma ballot_count_index:
  assumes "distinct (map (\<lambda>v. (userId v, votingSessionId v)) vs)"
  shows "ballot_count vs uid sid \<le> 1"
proof -
  have "(\<lambda>v. userId v = uid \<and> votingSessionId v = Some sid)
          = (\<lambda>v. (userId v, votingSessionId v) = (uid, Some sid))"
    by auto
  then show ?thesis
    unfolding ballot_count_def using distinct_key_count[OF assms, of "(uid, Some sid)"] by simp
qed

lemma ballot_count_zero: "\<not> has_ballot vs uid sid \<Longrightarrow> ballot_count vs uid sid = 0"
  by (simp add: has_ballot_def ballot_count_def list_ex_iff filter_empty_conv)

lemma has_ballot_append:
  "has_ballot (vs @ [v]) uid sid \<longleftrightarrow>
     has_ballot vs uid sid \<or> (userId v = uid \<and> votingSessionId v = Some sid)"
  by (auto simp: has_ballot_def list_ex_iff)

subsection \<open>What a 201 of \<open>castVoteInSession\<close> implies\<close>

lemma castVoteInSession_201:
  assumes ok: "res_status (snd (castVoteInSession st now usr body)) = 201"
  shows "\<exists>sid s. body_votingSessionId body = Some sid
           \<and> \<not> name_missing (body_candidateName body)
           \<and> VotingSession_findById sid (sessions st) = Some s
           \<and> isUserAssignedToSession (sessions st) sid (user_id usr)
           \<and> status s = Active
           \<and> (case startDate s of None \<Rightarrow> True | Some d \<Rightarrow> d \<le> now)
           \<and> (case endDate s of None \<Rightarrow> True | Some d \<Rightarrow> now \<le> d)
           \<and> (body_isCustomCandidate body \<longrightarrow> allowNewCandidates s)
           \<and> (body_isCustomCandidate body \<or> body_candidateId body = None \<or>
                list_ex (\<lambda>c. Some (cand_id c) = body_candidateId body) (candidates s))
           \<and> \<not> has_ballot (votes st) (user_id usr) sid"
proof -
  obtain sid where sid: "body_votingSessionId body = Some sid"
    using ok by (cases "body_votingSessionId body") (auto simp: castVoteInSession_def json_def)
  have name: "\<not> name_missing (body_candidateName body)"
  proof
    assume "name_missing (body_candidateName body)"
    then show False using ok sid by (simp add: castVoteInSession_def json_def)
  qed
  obtain s where sess: "VotingSession_findById sid (sessions st) = Some s"
    using ok sid name
    by (cases "VotingSession_findById sid (sessions st)") (auto simp: castVoteInSession_def json_def)
  have asg: "isUserAssignedToSession (sessions st) sid (user_id usr)"
  proof (rule ccontr)
    assume "\<not> isUserAssignedToSession (sessions st) sid (user_id usr)"
    then show False using ok sid name sess by (simp add: castVoteInSession_def json_def)
  qed
  have act: "status s = Active"
  proof (rule ccontr)
    assume "status s \<noteq> Active"
    then show False using ok sid name sess asg by (simp add: castVoteInSession_def json_def)
  qed
  have started: "case startDate s of None \<Rightarrow> True | Some d \<Rightarrow> d \<le> now"
  proof (rule ccontr)
    assume "\<not> (case startDate s of None \<Rightarrow> True | Some d \<Rightarrow> d \<le> now)"
    then have "(case startDate s of None \<Rightarrow> False | Some d \<Rightarrow> now < d)"
      by (cases "startDate s") auto
    then show False using ok sid name sess asg act by (simp add: castVoteInSession_def json_def)
  qed
  then have s1: "\<not> (case startDate s of None \<Rightarrow> False | Some d \<Rightarrow> now < d)"
    by (cases "startDate s") auto
  have not_ended: "case endDate s of None \<Rightarrow> True | Some d \<Rightarrow> now \<le> d"
  proof (rule ccontr)
    assume "\<not> (case endDate s of None \<Rightarrow> True | Some d \<Rightarrow> now \<le> d)"
    then have "(case endDate s of None \<Rightarrow> False | Some d \<Rightarrow> now > d)"
      by (cases "endDate s") auto
    then show False using ok sid name sess asg act s1
      by (simp add: castVoteInSession_def json_def)
  qed
  then have s2: "\<not> (case endDate s of None \<Rightarrow> False | Some d \<Rightarrow> now > d)"
    by (cases "endDate s") auto
  have custom: "body_isCustomCandidate body \<longrightarrow> allowNewCandidates s"
  proof (rule ccontr)
    assume "\<not> (body_isCustomCandidate body \<longrightarrow> allowNewCandidates s)"
    then have "body_isCustomCandidate body \<and> \<not> allowNewCandidates s" by simp
    then show False using ok sid name sess asg act s1 s2
      by (simp add: castVoteInSession_def json_def)
  qed
  have cand: "body_isCustomCandidate body \<or> body_candidateId body = None \<or>
                list_ex (\<lambda>c. Some (cand_id c) = body_candidateId body) (candidates s)"
  proof (rule ccontr)
    assume "\<not> (body_isCustomCandidate body \<or> body_candidateId body = None \<or>
                list_ex (\<lambda>c. Some (cand_id c) = body_candidateId body) (candidates s))"
    then have "\<not> body_isCustomCandidate body \<and> body_candidateId body \<noteq> None \<and>
                 \<not> list_ex (\<lambda>c. Some (cand_id c) = body_candidateId body) (candidates s)"
      by simp
    then show False using ok sid name sess asg act s1 s2
      by (simp add: castVoteInSession_def json_def)
  qed
  have fresh: "\<not> has_ballot (votes st) (user_id usr) sid"
  proof
    assume "has_ballot (votes st) (user_id usr) sid"
    from castVoteInSession_rejects_second[OF sid name sess asg act started not_ended custom cand this]
    show False using ok by (simp add: json_def)
  qed
  show ?thesis
    using sid name sess asg act started not_ended custom cand fresh by blast
qed

lemma castVoteInSession_voted_unchanged:
  assumes sid: "body_votingSessionId body = Some sid"
    and voted: "has_ballot (votes st) (user_id usr) sid"
  shows "fst (castVoteInSession st now usr body) = st
         \<and> res_status (snd (castVoteInSession st now usr body)) \<noteq> 201"
proof
  show "fst (castVoteInSession st now usr body) = st"
    by (simp add: castVoteInSession_def sid Vote_castVoteInSession_voted[OF voted] Let_def
             split: option.splits)
  show "res_status (snd (castVoteInSession st now usr body)) \<noteq> 201"
  proof
    assume "res_status (snd (castVoteInSession st now usr body)) = 201"
    from castVoteInSession_201[OF this] sid voted show False by auto
  qed
qed

lemma ex_first_cast:
  "castVoteInSession (ex_store []) 1500 ex_alice (ex_body (Some 10) (Some ''Alice''))
     = (ex_store [ex_ballot 1 2 ''Alice'' 1500],
        \<lparr>res_status = 201, res_message = ''Vote cast successfully'',
         res_payload = VotePayload
           \<lparr>sum_id = 1, sum_candidateName = ''Alice'', sum_votingSessionId = Some 10,
            sum_timestamp = 1500, sum_isCustomCandidate = False\<rparr>\<rparr>)"
  by (simp add: castVoteInSession_def ex_defs name_missing_def trim_def is_whitespace_def
        VotingSession_findById_def isUserAssignedToSession_def Vote_castVoteInSession_def
        VoteModel_findOne_def VoteModel_save_def new_VoteModel_def unique_index_hit_def
        VoteModel_findById_def fresh_id_def Let_def)

text \<open>
  C2: no reachable vote collection holds two ballots of one user in one session.
  A cast that passes the checks of the handler, by a user without a ballot in the
  session, is answered 201. When a cast by a user into a session is answered 201, the store then holds
  exactly one ballot of that user in that session; every further cast of the user
  into the session, whatever its candidate and time, is not answered 201 and leaves
  the store as it is; the same request repeated at any later time up to the end
  of the session is answered 409 \<open>User has already voted in this voting session\<close>;
  and so is every further cast of the user into the session, for whatever
  candidate, that has a candidate name and passes the checks of time, of
  \<open>allowNewCandidates\<close> and of the candidate identity.
\<close>

theorem one_ballot_per_user_and_session:
  "(reachable vs \<longrightarrow> ballot_count vs u s \<le> 1)
   \<and> (castVoteInSession st now usr body = (st', r) \<and> res_status r = 201 \<longrightarrow>
        (\<exists>sid. body_votingSessionId body = Some sid
           \<and> ballot_count (votes st') (user_id usr) sid = 1
           \<and> (reachable (votes st) \<longrightarrow> reachable (votes st'))
           \<and> (\<forall>now' body'. body_votingSessionId body' = Some sid \<longrightarrow>
                  fst (castVoteInSession st' now' usr body') = st'
                  \<and> res_status (snd (castVoteInSession st' now' usr body')) \<noteq> 201)
           \<and> (\<forall>now'. now \<le> now' \<and>
                  (\<forall>session d. VotingSession_findById sid (sessions st) = Some session
                       \<and> endDate session = Some d \<longrightarrow> now' \<le> d) \<longrightarrow>
                  castVoteInSession st' now' usr body
                    = (st', json 409 ''User has already voted in this voting session''))
           \<and> (\<forall>now' body' session. body_votingSessionId body' = Some sid
                     \<and> \<not> name_missing (body_candidateName body')
                     \<and> VotingSession_findById sid (sessions st) = Some session
                     \<and> (\<forall>d. startDate session = Some d \<longrightarrow> d \<le> now')
                     \<and> (\<forall>d. endDate session = Some d \<longrightarrow> now' \<le> d)
                     \<and> (body_isCustomCandidate body' \<longrightarrow> allowNewCandidates session)
                     \<and> (body_isCustomCandidate body' \<or> body_candidateId body' = None \<or>
                          list_ex (\<lambda>c. Some (cand_id c) = body_candidateId body') (candidates session))
                     \<longrightarrow>
                     castVoteInSession st' now' usr body'
                       = (st', json 409 ''User has already voted in this voting session''))))
   \<and> (body_votingSessionId body = Some tsid
        \<and> \<not> name_missing (body_candidateName body)
        \<and> VotingSession_findById tsid (sessions st) = Some tsession
        \<and> isUserAssignedToSession (sessions st) tsid (user_id usr)
        \<and> status tsession = Active
        \<and> (\<forall>d. startDate tsession = Some d \<longrightarrow> d \<le> now)
        \<and> (\<forall>d. endDate tsession = Some d \<longrightarrow> now \<le> d)
        \<and> (body_isCustomCandidate body \<longrightarrow> allowNewCandidates tsession)
        \<and> (body_isCustomCandidate body \<or> body_candidateId body = None \<or>
             list_ex (\<lambda>c. Some (cand_id c) = body_candidateId body) (candidates tsession))
        \<and> \<not> has_ballot (votes st) (user_id usr) tsid \<longrightarrow>
        res_status (snd (castVoteInSession st now usr body)) = 201)"
proof (intro conjI impI)
  assume "reachable vs"
  then show "ballot_count vs u s \<le> 1"
    using reachable_index ballot_count_index by blast
next
  assume a: "castVoteInSession st now usr body = (st', r) \<and> res_status r = 201"
  then have "res_status (snd (castVoteInSession st now usr body)) = 201" by simp
  from castVoteInSession_201[OF this] obtain sid session where
    sid: "body_votingSessionId body = Some sid"
    and name: "\<not> name_missing (body_candidateName body)"
    and sess: "VotingSession_findById sid (sessions st) = Some session"
    and asg: "isUserAssignedToSession (sessions st) sid (user_id usr)"
    and act: "status session = Active"
    and started: "case startDate session of None \<Rightarrow> True | Some d \<Rightarrow> d \<le> now"
    and not_ended: "case endDate session of None \<Rightarrow> True | Some d \<Rightarrow> now \<le> d"
    and custom: "body_isCustomCandidate body \<longrightarrow> allowNewCandidates session"
    and cand: "body_isCustomCandidate body \<or> body_candidateId body = None \<or>
                list_ex (\<lambda>c. Some (cand_id c) = body_candidateId body) (candidates session)"
    and fresh: "\<not> has_ballot (votes st) (user_id usr) sid"
    by blast
  let ?vote = "\<lparr>vote_id = fresh_id (votes st), userId = user_id usr,
                 votingSessionId = Some sid, candidateId = body_candidateId body,
                 candidateName = trim (the (body_candidateName body)), timestamp = now,
                 isCustomCandidate = body_isCustomCandidate body\<rparr>"
  from castVoteInSession_accepts[OF sid name sess asg act started not_ended custom cand fresh] a
  have st': "st' = st\<lparr>votes := votes st @ [?vote]\<rparr>" by simp
  have voted': "has_ballot (votes st') (user_id usr) sid"
    by (simp add: st' has_ballot_append)
  have count: "ballot_count (votes st') (user_id usr) sid = 1"
    using ballot_count_zero[OF fresh] by (simp add: st' ballot_count_def)
  have reach: "reachable (votes st) \<longrightarrow> reachable (votes st')"
  proof
    assume rv: "reachable (votes st)"
    from name obtain n where n: "body_candidateName body = Some n" "trim n \<noteq> []"
      using name_present_trim by blast
    let ?cd = "\<lparr>cd_candidateId = body_candidateId body, cd_candidateName = trim n,
                cd_isCustomCandidate = body_isCustomCandidate body\<rparr>"
    have "trim (cd_candidateName ?cd) \<noteq> []" using n by (simp add: trim_idem)
    from Vote_castVoteInSession_new[OF fresh this, of now]
    have "Vote_castVoteInSession (votes st) now (user_id usr) sid ?cd
            = Inr (votes st', Some ?vote)"
      using n by (simp add: Let_def trim_idem new_VoteModel_def st')
    with rv show "reachable (votes st')" by (rule reachable_castVoteInSession)
  qed
  have later: "\<forall>now' body'. body_votingSessionId body' = Some sid \<longrightarrow>
                  fst (castVoteInSession st' now' usr body') = st'
                  \<and> res_status (snd (castVoteInSession st' now' usr body')) \<noteq> 201"
    using castVoteInSession_voted_unchanged[OF _ voted'] by blast
  have again: "\<forall>now'. now \<le> now' \<and>
                  (\<forall>session d. VotingSession_findById sid (sessions st) = Some session
                       \<and> endDate session = Some d \<longrightarrow> now' \<le> d) \<longrightarrow>
                  castVoteInSession st' now' usr body
                    = (st', json 409 ''User has already voted in this voting session'')"
  proof (intro allI impI)
    fix now'
    assume w: "now \<le> now' \<and>
                  (\<forall>session d. VotingSession_findById sid (sessions st) = Some session
                       \<and> endDate session = Some d \<longrightarrow> now' \<le> d)"
    have sess': "VotingSession_findById sid (sessions st') = Some session"
      using sess by (simp add: st')
    have asg': "isUserAssignedToSession (sessions st') sid (user_id usr)"
      using asg by (simp add: st')
    have started': "case startDate session of None \<Rightarrow> True | Some d \<Rightarrow> d \<le> now'"
      using started w by (cases "startDate session") auto
    have not_ended': "case endDate session of None \<Rightarrow> True | Some d \<Rightarrow> now' \<le> d"
      using w sess by (cases "endDate session") auto
    show "castVoteInSession st' now' usr body
            = (st', json 409 ''User has already voted in this voting session'')"
      by (rule castVoteInSession_rejects_second[OF sid name sess' asg' act started' not_ended'
                custom cand voted'])
  qed
  have anycast: "(\<forall>now' body' session. body_votingSessionId body' = Some sid
              \<and> \<not> name_missing (body_candidateName body')
              \<and> VotingSession_findById sid (sessions st) = Some session
              \<and> (\<forall>d. startDate session = Some d \<longrightarrow> d \<le> now')
              \<and> (\<forall>d. endDate session = Some d \<longrightarrow> now' \<le> d)
              \<and> (body_isCustomCandidate body' \<longrightarrow> allowNewCandidates session)
              \<and> (body_isCustomCandidate body' \<or> body_candidateId body' = None \<or>
                   list_ex (\<lambda>c. Some (cand_id c) = body_candidateId body') (candidates session))
              \<longrightarrow>
              castVoteInSession st' now' usr body'
                = (st', json 409 ''User has already voted in this voting session''))"
  proof (intro allI impI)
    fix now' :: date and body' :: cast_body and session' :: session_doc
    assume w: "body_votingSessionId body' = Some sid
       \<and> \<not> name_missing (body_candidateName body')
       \<and> VotingSession_findById sid (sessions st) = Some session'
       \<and> (\<forall>d. startDate session' = Some d \<longrightarrow> d \<le> now')
       \<and> (\<forall>d. endDate session' = Some d \<longrightarrow> now' \<le> d)
       \<and> (body_isCustomCandidate body' \<longrightarrow> allowNewCandidates session')
       \<and> (body_isCustomCandidate body' \<or> body_candidateId body' = None \<or>
            list_ex (\<lambda>c. Some (cand_id c) = body_candidateId body') (candidates session'))"
    from w sess have same: "session' = session" by simp
    from w have sid': "body_votingSessionId body' = Some sid"
      and name': "\<not> name_missing (body_candidateName body')"
      and custom': "body_isCustomCandidate body' \<longrightarrow> allowNewCandidates session"
      and cand': "body_isCustomCandidate body' \<or> body_candidateId body' = None \<or>
            list_ex (\<lambda>c. Some (cand_id c) = body_candidateId body') (candidates session)"
      unfolding same by blast+
    have sess': "VotingSession_findById sid (sessions st') = Some session"
      using sess by (simp add: st')
    have asg': "isUserAssignedToSession (sessions st') sid (user_id usr)"
      using asg by (simp add: st')
    have started': "case startDate session of None \<Rightarrow> True | Some d \<Rightarrow> d \<le> now'"
      using w same by (cases "startDate session") auto
    have not_ended': "case endDate session of None \<Rightarrow> True | Some d \<Rightarrow> now' \<le> d"
      using w same by (cases "endDate session") auto
    show "castVoteInSession st' now' usr body'
            = (st', json 409 ''User has already voted in this voting session'')"
      by (rule castVoteInSession_rejects_second[OF sid' name' sess' asg' act started' not_ended'
                custom' cand' voted'])
  qed
  show "\<exists>sid. body_votingSessionId body = Some sid
           \<and> ballot_count (votes st') (user_id usr) sid = 1
           \<and> (reachable (votes st) \<longrightarrow> reachable (votes st'))
           \<and> (\<forall>now' body'. body_votingSessionId body' = Some sid \<longrightarrow>
                  fst (castVoteInSession st' now' usr body') = st'
                  \<and> res_status (snd (castVoteInSession st' now' usr body')) \<noteq> 201)
           \<and> (\<forall>now'. now \<le> now' \<and>
                  (\<forall>session d. VotingSession_findById sid (sessions st) = Some session
                       \<and> endDate session = Some d \<longrightarrow> now' \<le> d) \<longrightarrow>
                  castVoteInSession st' now' usr body
                    = (st', json 409 ''User has already voted in this voting session''))
           \<and> (\<forall>now' body' session. body_votingSessionId body' = Some sid
                     \<and> \<not> name_missing (body_candidateName body')
                     \<and> VotingSession_findById sid (sessions st) = Some session
                     \<and> (\<forall>d. startDate session = Some d \<longrightarrow> d \<le> now')
                     \<and> (\<forall>d. endDate session = Some d \<longrightarrow> now' \<le> d)
                     \<and> (body_isCustomCandidate body' \<longrightarrow> allowNewCandidates session)
                     \<and> (body_isCustomCandidate body' \<or> body_candidateId body' = None \<or>
                          list_ex (\<lambda>c. Some (cand_id c) = body_candidateId body') (candidates session))
                     \<longrightarrow>
                     castVoteInSession st' now' usr body'
                       = (st', json 409 ''User has already voted in this voting session''))"
    using sid count reach later again anycast by blast
next
  assume c: "body_votingSessionId body = Some tsid
        \<and> \<not> name_missing (body_candidateName body)
        \<and> VotingSession_findById tsid (sessions st) = Some tsession
        \<and> isUserAssignedToSession (sessions st) tsid (user_id usr)
        \<and> status tsession = Active
        \<and> (\<forall>d. startDate tsession = Some d \<longrightarrow> d \<le> now)
        \<and> (\<forall>d. endDate tsession = Some d \<longrightarrow> now \<le> d)
        \<and> (body_isCustomCandidate body \<longrightarrow> allowNewCandidates tsession)
        \<and> (body_isCustomCandidate body \<or> body_candidateId body = None \<or>
             list_ex (\<lambda>c. Some (cand_id c) = body_candidateId body) (candidates tsession))
        \<and> \<not> has_ballot (votes st) (user_id usr) tsid"
  then have sid: "body_votingSessionId body = Some tsid"
    and name: "\<not> name_missing (body_candidateName body)"
    and sess: "VotingSession_findById tsid (sessions st) = Some tsession"
    and asg: "isUserAssignedToSession (sessions st) tsid (user_id usr)"
    and act: "status tsession = Active"
    and custom: "body_isCustomCandidate body \<longrightarrow> allowNewCandidates tsession"
    and cand: "body_isCustomCandidate body \<or> body_candidateId body = None \<or>
             list_ex (\<lambda>c. Some (cand_id c) = body_candidateId body) (candidates tsession)"
    and fresh: "\<not> has_ballot (votes st) (user_id usr) tsid"
    by blast+
  have started: "case startDate tsession of None \<Rightarrow> True | Some d \<Rightarrow> d \<le> now"
    using c by (cases "startDate tsession") auto
  have not_ended: "case endDate tsession of None \<Rightarrow> True | Some d \<Rightarrow> now \<le> d"
    using c by (cases "endDate tsession") auto
  show "res_status (snd (castVoteInSession st now usr body)) = 201"
    by (simp add: castVoteInSession_accepts[OF sid name sess asg act started not_ended custom
                    cand fresh])
qed

text \<open>
  Alice casts for Alice in session 10 at time 1500 on the store without ballots and
  is answered 201; the store then holds her one ballot; her cast for Bob at time
  1600 is answered 409 and changes nothing, and her first request again at time
  2000 is answered 409.
\<close>

theorem one_ballot_per_user_and_session_witness:
  "reachable [] \<and> ballot_count [] 2 10 \<le> 1
   \<and> res_status (snd (castVoteInSession (ex_store []) 1500 ex_alice
                        (ex_body (Some 10) (Some ''Alice'')))) = 201
   \<and> ballot_count [ex_ballot 1 2 ''Alice'' 1500] 2 10 = 1
   \<and> reachable [ex_ballot 1 2 ''Alice'' 1500]
   \<and> fst (castVoteInSession (ex_store [ex_ballot 1 2 ''Alice'' 1500]) 1600 ex_alice
            (ex_body (Some 10) (Some ''Bob''))) = ex_store [ex_ballot 1 2 ''Alice'' 1500]
   \<and> castVoteInSession (ex_store [ex_ballot 1 2 ''Alice'' 1500]) 1600 ex_alice
            (ex_body (Some 10) (Some ''Bob''))
       = (ex_store [ex_ballot 1 2 ''Alice'' 1500],
          json 409 ''User has already voted in this voting session'')
   \<and> castVoteInSession (ex_store [ex_ballot 1 2 ''Alice'' 1500]) 2000 ex_alice
            (ex_body (Some 10) (Some ''Alice''))
       = (ex_store [ex_ballot 1 2 ''Alice'' 1500],
          json 409 ''User has already voted in this voting session'')"
proof -
  let ?st' = "ex_store [ex_ballot 1 2 ''Alice'' 1500]"
  let ?r = "\<lparr>res_status = 201, res_message = ''Vote cast successfully'',
         res_payload = VotePayload
           \<lparr>sum_id = 1, sum_candidateName = ''Alice'', sum_votingSessionId = Some 10,
            sum_timestamp = 1500, sum_isCustomCandidate = False\<rparr>\<rparr>"
  have first: "castVoteInSession (ex_store []) 1500 ex_alice (ex_body (Some 10) (Some ''Alice''))
                 = (?st', ?r) \<and> res_status ?r = 201"
    using ex_first_cast by simp
  have r0: "reachable []" by (rule reachable_empty)
  have sess: "VotingSession_findById 10 (sessions (ex_store [])) = Some (ex_session 10 Active)"
    by (simp add: VotingSession_findById_def ex_defs)
  note inst = one_ballot_per_user_and_session[where vs = "[]" and u = 2 and s = 10
         and st = "ex_store []" and now = 1500 and usr = ex_alice
         and body = "ex_body (Some 10) (Some ''Alice'')" and st' = ?st' and r = ?r
         and tsid = 10 and tsession = "ex_session 10 Active"]
  have "body_votingSessionId (ex_body (Some 10) (Some ''Alice'')) = Some 10
        \<and> \<not> name_missing (body_candidateName (ex_body (Some 10) (Some ''Alice'')))
        \<and> isUserAssignedToSession (sessions (ex_store [])) 10 (user_id ex_alice)
        \<and> status (ex_session 10 Active) = Active
        \<and> (\<forall>d. startDate (ex_session 10 Active) = Some d \<longrightarrow> d \<le> 1500)
        \<and> (\<forall>d. endDate (ex_session 10 Active) = Some d \<longrightarrow> 1500 \<le> d)
        \<and> \<not> body_isCustomCandidate (ex_body (Some 10) (Some ''Alice''))
        \<and> body_candidateId (ex_body (Some 10) (Some ''Alice'')) = None
        \<and> \<not> has_ballot (votes (ex_store [])) (user_id ex_alice) 10"
    by (simp add: ex_defs name_missing_def trim_def is_whitespace_def
          isUserAssignedToSession_def has_ballot_def)
  with inst sess
  have ok: "res_status (snd (castVoteInSession (ex_store []) 1500 ex_alice
                        (ex_body (Some 10) (Some ''Alice'')))) = 201"
    by blast
  from inst first r0
  obtain sid where
    sid: "body_votingSessionId (ex_body (Some 10) (Some ''Alice'')) = Some sid"
    and c0: "ballot_count [] 2 10 \<le> 1"
    and c1: "ballot_count (votes ?st') (user_id ex_alice) sid = 1"
    and re: "reachable (votes (ex_store [])) \<longrightarrow> reachable (votes ?st')"
    and later: "\<forall>now' body'. body_votingSessionId body' = Some sid \<longrightarrow>
                  fst (castVoteInSession ?st' now' ex_alice body') = ?st'
                  \<and> res_status (snd (castVoteInSession ?st' now' ex_alice body')) \<noteq> 201"
    and again: "\<forall>now'. 1500 \<le> now' \<and>
                  (\<forall>session d. VotingSession_findById sid (sessions (ex_store [])) = Some session
                       \<and> endDate session = Some d \<longrightarrow> now' \<le> d) \<longrightarrow>
                  castVoteInSession ?st' now' ex_alice (ex_body (Some 10) (Some ''Alice''))
                    = (?st', json 409 ''User has already voted in this voting session'')"
    and anycast: "\<forall>now' body' session. body_votingSessionId body' = Some sid
       \<and> \<not> name_missing (body_candidateName body')
       \<and> VotingSession_findById sid (sessions (ex_store [])) = Some session
       \<and> (\<forall>d. startDate session = Some d \<longrightarrow> d \<le> now')
       \<and> (\<forall>d. endDate session = Some d \<longrightarrow> now' \<le> d)
       \<and> (body_isCustomCandidate body' \<longrightarrow> allowNewCandidates session)
       \<and> (body_isCustomCandidate body' \<or> body_candidateId body' = None \<or>
            list_ex (\<lambda>c. Some (cand_id c) = body_candidateId body') (candidates session))
       \<longrightarrow>
       castVoteInSession ?st' now' ex_alice body'
         = (?st', json 409 ''User has already voted in this voting session'')"
    by blast
  from sid have sid10: "sid = 10" by (simp add: ex_body_def)
  have bob: "body_votingSessionId (ex_body (Some 10) (Some ''Bob'')) = Some 10
       \<and> \<not> name_missing (body_candidateName (ex_body (Some 10) (Some ''Bob'')))
       \<and> (\<forall>d. startDate (ex_session 10 Active) = Some d \<longrightarrow> d \<le> 1600)
       \<and> (\<forall>d. endDate (ex_session 10 Active) = Some d \<longrightarrow> 1600 \<le> d)
       \<and> (body_isCustomCandidate (ex_body (Some 10) (Some ''Bob''))
            \<longrightarrow> allowNewCandidates (ex_session 10 Active))
       \<and> (body_isCustomCandidate (ex_body (Some 10) (Some ''Bob''))
            \<or> body_candidateId (ex_body (Some 10) (Some ''Bob'')) = None
            \<or> list_ex (\<lambda>c. Some (cand_id c) = body_candidateId (ex_body (Some 10) (Some ''Bob'')))
                 (candidates (ex_session 10 Active)))"
    by (simp add: ex_body_def ex_session_def name_missing_def trim_def is_whitespace_def)
  have bob409: "castVoteInSession ?st' 1600 ex_alice (ex_body (Some 10) (Some ''Bob''))
       = (?st', json 409 ''User has already voted in this voting session'')"
    using anycast[rule_format, of "ex_body (Some 10) (Some ''Bob'')" "ex_session 10 Active" 1600]
      bob sess sid10 by blast
  have "fst (castVoteInSession ?st' 1600 ex_alice (ex_body (Some 10) (Some ''Bob''))) = ?st'"
    using later sid10 by (simp add: ex_body_def)
  moreover have "castVoteInSession ?st' 2000 ex_alice (ex_body (Some 10) (Some ''Alice''))
       = (?st', json 409 ''User has already voted in this voting session'')"
    using again[rule_format, of 2000] sess sid10 by (simp add: ex_session_def)
  moreover have "reachable [ex_ballot 1 2 ''Alice'' 1500]"
    using re r0 by (simp add: ex_store_def)
  moreover have "ballot_count [ex_ballot 1 2 ''Alice'' 1500] 2 10 = 1"
    using c1 sid10 by (simp add: ex_store_def ex_alice_def)
  ultimately show ?thesis using ok c0 r0 bob409 by simp
qed

section \<open>C3: the time window of a session\<close>

text \<open>
  C3, as the source has it for the session-scoped cast: the end of the window is
  inclusive. For a cast that names an existing, active session, carries a candidate
  name that is not blank and comes from a user assigned to the session (the checks
  that the handler makes before it reads the clock), a cast before the start is
  answered 400 \<open>Voting session has not started yet\<close>, a cast after the end is
  answered 400 \<open>Voting session has ended\<close>, a cast at the end itself is never
  answered \<open>Voting session has ended\<close> and is answered 201 when the remaining
  checks pass, and every cast answered 201 lies between start and end, both
  included.
\<close>

theorem session_time_window:
  assumes sid: "body_votingSessionId body = Some sid"
    and name: "\<not> name_missing (body_candidateName body)"
    and sess: "VotingSession_findById sid (sessions st) = Some s"
    and asg: "isUserAssignedToSession (sessions st) sid (user_id usr)"
    and act: "status s = Active"
  shows "(\<forall>d. startDate s = Some d \<and> now < d \<longrightarrow>
            castVoteInSession st now usr body
              = (st, json 400 ''Voting session has not started yet''))
       \<and> (\<forall>d. endDate s = Some d \<and> d < now \<and> (\<forall>d0. startDate s = Some d0 \<longrightarrow> d0 \<le> now) \<longrightarrow>
            castVoteInSession st now usr body = (st, json 400 ''Voting session has ended''))
       \<and> (endDate s = Some now \<longrightarrow>
            res_message (snd (castVoteInSession st now usr body)) \<noteq> ''Voting session has ended'')
       \<and> (endDate s = Some now \<and> (\<forall>d0. startDate s = Some d0 \<longrightarrow> d0 \<le> now)
            \<and> (body_isCustomCandidate body \<longrightarrow> allowNewCandidates s)
            \<and> (body_isCustomCandidate body \<or> body_candidateId body = None \<or>
                 list_ex (\<lambda>c. Some (cand_id c) = body_candidateId body) (candidates s))
            \<and> \<not> has_ballot (votes st) (user_id usr) sid \<longrightarrow>
            res_status (snd (castVoteInSession st now usr body)) = 201)
       \<and> (res_status (snd (castVoteInSession st now usr body)) = 201 \<longrightarrow>
            (\<forall>d0. startDate s = Some d0 \<longrightarrow> d0 \<le> now) \<and> (\<forall>d. endDate s = Some d \<longrightarrow> now \<le> d))"
proof (intro conjI allI impI)
  fix d assume "startDate s = Some d \<and> now < d"
  then show "castVoteInSession st now usr body
               = (st, json 400 ''Voting session has not started yet'')"
    using sid name sess asg act by (simp add: castVoteInSession_def)
next
  fix d assume a: "endDate s = Some d \<and> d < now \<and> (\<forall>d0. startDate s = Some d0 \<longrightarrow> d0 \<le> now)"
  then have "\<not> (case startDate s of None \<Rightarrow> False | Some d \<Rightarrow> now < d)"
    by (cases "startDate s") auto
  then show "castVoteInSession st now usr body = (st, json 400 ''Voting session has ended'')"
    using a sid name sess asg act by (simp add: castVoteInSession_def)
next
  assume e: "endDate s = Some now"
  show "res_message (snd (castVoteInSession st now usr body)) \<noteq> ''Voting session has ended''"
    using e sid name sess asg act
    by (simp add: castVoteInSession_def json_def castVoteInSession_catch_def Let_def
             split: sum.splits option.splits prod.splits)
next
  assume a: "endDate s = Some now \<and> (\<forall>d0. startDate s = Some d0 \<longrightarrow> d0 \<le> now)
            \<and> (body_isCustomCandidate body \<longrightarrow> allowNewCandidates s)
            \<and> (body_isCustomCandidate body \<or> body_candidateId body = None \<or>
                 list_ex (\<lambda>c. Some (cand_id c) = body_candidateId body) (candidates s))
            \<and> \<not> has_ballot (votes st) (user_id usr) sid"
  have started: "case startDate s of None \<Rightarrow> True | Some d \<Rightarrow> d \<le> now"
    using a by (cases "startDate s") auto
  have not_ended: "case endDate s of None \<Rightarrow> True | Some d \<Rightarrow> now \<le> d"
    using a by simp
  from a have custom: "body_isCustomCandidate body \<longrightarrow> allowNewCandidates s"
    and cand: "body_isCustomCandidate body \<or> body_candidateId body = None \<or>
                 list_ex (\<lambda>c. Some (cand_id c) = body_candidateId body) (candidates s)"
    and fresh: "\<not> has_ballot (votes st) (user_id usr) sid"
    by blast+
  show "res_status (snd (castVoteInSession st now usr body)) = 201"
    by (simp add: castVoteInSession_accepts[OF sid name sess asg act started not_ended custom cand fresh])
next
  fix d0
  assume ok: "res_status (snd (castVoteInSession st now usr body)) = 201"
    and d0: "startDate s = Some d0"
  from castVoteInSession_201[OF ok] sid sess d0 show "d0 \<le> now" by auto
next
  fix d
  assume ok: "res_status (snd (castVoteInSession st now usr body)) = 201"
    and d: "endDate s = Some d"
  from castVoteInSession_201[OF ok] sid sess d show "now \<le> d" by auto
qed

text \<open>
  Session 10 runs from 1000 to 2000: Alice's cast is rejected at 999 and at 2001,
  and accepted at 2000.
\<close>

theorem session_time_window_witness:
  "castVoteInSession (ex_store []) 999 ex_alice (ex_body (Some 10) (Some ''Alice''))
     = (ex_store [], json 400 ''Voting session has not started yet'')
   \<and> castVoteInSession (ex_store []) 2001 ex_alice (ex_body (Some 10) (Some ''Alice''))
     = (ex_store [], json 400 ''Voting session has ended'')
   \<and> res_status (snd (castVoteInSession (ex_store []) 2000 ex_alice
                        (ex_body (Some 10) (Some ''Alice'')))) = 201"
proof -
  let ?b = "ex_body (Some 10) (Some ''Alice'')"
  have sid: "body_votingSessionId ?b = Some 10" by (simp add: ex_body_def)
  have name: "\<not> name_missing (body_candidateName ?b)"
    by (simp add: ex_body_def name_missing_def trim_def is_whitespace_def)
  have sess: "VotingSession_findById 10 (sessions (ex_store [])) = Some (ex_session 10 Active)"
    by (simp add: VotingSession_findById_def ex_defs)
  have asg: "isUserAssignedToSession (sessions (ex_store [])) 10 (user_id ex_alice)"
    by (simp add: isUserAssignedToSession_def ex_defs)
  have act: "status (ex_session 10 Active) = Active" by (simp add: ex_session_def)
  have fresh: "\<not> has_ballot (votes (ex_store [])) (user_id ex_alice) 10"
    by (simp add: has_ballot_def ex_store_def)
  note w = session_time_window[OF sid name sess asg act]
  have "castVoteInSession (ex_store []) 999 ex_alice ?b
          = (ex_store [], json 400 ''Voting session has not started yet'')"
    using w[of 999] by (simp add: ex_session_def)
  moreover have "castVoteInSession (ex_store []) 2001 ex_alice ?b
          = (ex_store [], json 400 ''Voting session has ended'')"
    using w[of 2001] by (simp add: ex_session_def)
  moreover have "res_status (snd (castVoteInSession (ex_store []) 2000 ex_alice ?b)) = 201"
    using w[of 2000] fresh by (simp add: ex_session_def ex_body_def)
  ultimately show ?thesis by simp
qed

text \<open>
  C3 as stated fails: at time 2000, the end of session 10, Alice's cast is answered
  201 and her ballot is stored.
\<close>

theorem cast_at_end_counterexample:
  "endDate (ex_session 10 Active) = Some 2000
   \<and> VotingSession_findById 10 (sessions (ex_store [])) = Some (ex_session 10 Active)
   \<and> castVoteInSession (ex_store []) 2000 ex_alice (ex_body (Some 10) (Some ''Alice''))
       = (ex_store [ex_ballot 1 2 ''Alice'' 2000],
          \<lparr>res_status = 201, res_message = ''Vote cast successfully'',
           res_payload = VotePayload
             \<lparr>sum_id = 1, sum_candidateName = ''Alice'', sum_votingSessionId = Some 10,
              sum_timestamp = 2000, sum_isCustomCandidate = False\<rparr>\<rparr>)"
  by (simp add: castVoteInSession_def ex_defs name_missing_def trim_def is_whitespace_def
        VotingSession_findById_def isUserAssignedToSession_def Vote_castVoteInSession_def
        VoteModel_findOne_def VoteModel_save_def new_VoteModel_def unique_index_hit_def
        VoteModel_findById_def fresh_id_def Let_def)

section \<open>C4: casting into a session that is not active\<close>

text \<open>
  C4, as the source has it: a cast that names an existing session whose status is
  draft or closed never stores a ballot and is never answered 201. When the
  candidate name is present, a user assigned to the session is answered 400
  \<open>Voting session is not active\<close> (\<open>InvalidState\<close>) whatever the candidate
  identity and the custom flag are, and a user who is not assigned is answered 403.
  When the candidate name is absent or blank the answer is 400
  \<open>Candidate name is required\<close> (\<open>InvalidInput\<close>): that check comes before the
  session is looked up.
\<close>

theorem inactive_session_rejects_cast:
  assumes sid: "body_votingSessionId body = Some sid"
    and sess: "VotingSession_findById sid (sessions st) = Some s"
    and inactive: "status s = Draft \<or> status s = Closed"
  shows "(name_missing (body_candidateName body) \<longrightarrow>
            castVoteInSession st now usr body = (st, json 400 ''Candidate name is required'')
            \<and> spec_error_kind (snd (castVoteInSession st now usr body)) = Some InvalidInput)
       \<and> (\<not> name_missing (body_candidateName body)
            \<and> \<not> isUserAssignedToSession (sessions st) sid (user_id usr) \<longrightarrow>
            castVoteInSession st now usr body
              = (st, json 403 ''You are not assigned to this voting session''))
       \<and> (\<not> name_missing (body_candidateName body)
            \<and> isUserAssignedToSession (sessions st) sid (user_id usr) \<longrightarrow>
            castVoteInSession st now usr body = (st, json 400 ''Voting session is not active'')
            \<and> spec_error_kind (snd (castVoteInSession st now usr body)) = Some InvalidState)
       \<and> fst (castVoteInSession st now usr body) = st
       \<and> res_status (snd (castVoteInSession st now usr body)) \<noteq> 201"
proof -
  from inactive have na: "status s \<noteq> Active" by auto
  have 1: "name_missing (body_candidateName body) \<longrightarrow>
            castVoteInSession st now usr body = (st, json 400 ''Candidate name is required'')"
    using sid by (simp add: castVoteInSession_def)
  have 2: "\<not> name_missing (body_candidateName body)
            \<and> \<not> isUserAssignedToSession (sessions st) sid (user_id usr) \<longrightarrow>
            castVoteInSession st now usr body
              = (st, json 403 ''You are not assigned to this voting session'')"
    using sid sess by (simp add: castVoteInSession_def)
  have 3: "\<not> name_missing (body_candidateName body)
            \<and> isUserAssignedToSession (sessions st) sid (user_id usr) \<longrightarrow>
            castVoteInSession st now usr body = (st, json 400 ''Voting session is not active'')"
    using sid sess na by (simp add: castVoteInSession_def)
  have k1: "spec_error_kind (json 400 ''Candidate name is required'') = Some InvalidInput"
    by (simp add: spec_error_kind_def json_def)
  have k3: "spec_error_kind (json 400 ''Voting session is not active'') = Some InvalidState"
    by (simp add: spec_error_kind_def json_def)
  have 4: "fst (castVoteInSession st now usr body) = st"
    using 1 2 3 by (cases "name_missing (body_candidateName body)";
                    cases "isUserAssignedToSession (sessions st) sid (user_id usr)") simp_all
  have 5: "res_status (snd (castVoteInSession st now usr body)) \<noteq> 201"
    using 1 2 3 by (cases "name_missing (body_candidateName body)";
                    cases "isUserAssignedToSession (sessions st) sid (user_id usr)")
                   (simp_all add: json_def)
  show ?thesis using 1 2 3 4 5 k1 k3 by simp
qed

text \<open>
  Session 11 is a draft and session 12 is closed; Alice is assigned to both and
  Carol to neither. The empty name and the name that is one no-break space are
  blank.
\<close>

theorem inactive_session_rejects_cast_witness:
  "castVoteInSession (ex_store []) 1500 ex_alice (ex_body (Some 11) (Some ''Alice''))
     = (ex_store [], json 400 ''Voting session is not active'')
   \<and> castVoteInSession (ex_store []) 1500 ex_alice
        \<lparr>body_votingSessionId = Some 12, body_candidateName = Some ''Zed'',
         body_candidateId = Some 777, body_isCustomCandidate = True\<rparr>
     = (ex_store [], json 400 ''Voting session is not active'')
   \<and> castVoteInSession (ex_store []) 1500 ex_alice (ex_body (Some 11) (Some []))
     = (ex_store [], json 400 ''Candidate name is required'')
   \<and> castVoteInSession (ex_store []) 1500 ex_alice (ex_body (Some 11) (Some [CHR 0xA0]))
     = (ex_store [], json 400 ''Candidate name is required'')
   \<and> castVoteInSession (ex_store []) 1500 ex_carol (ex_body (Some 11) (Some ''Alice''))
     = (ex_store [], json 403 ''You are not assigned to this voting session'')"
proof -
  let ?b12 = "\<lparr>body_votingSessionId = Some 12, body_candidateName = Some ''Zed'',
         body_candidateId = Some 777, body_isCustomCandidate = True\<rparr>"
  have s11: "VotingSession_findById 11 (sessions (ex_store [])) = Some (ex_session 11 Draft)"
    by (simp add: VotingSession_findById_def ex_defs)
  have s12: "VotingSession_findById 12 (sessions (ex_store [])) = Some (ex_session 12 Closed)"
    by (simp add: VotingSession_findById_def ex_defs)
  have d: "status (ex_session 11 Draft) = Draft \<or> status (ex_session 11 Draft) = Closed"
    by (simp add: ex_session_def)
  have c: "status (ex_session 12 Closed) = Draft \<or> status (ex_session 12 Closed) = Closed"
    by (simp add: ex_session_def)
  have a11: "isUserAssignedToSession (sessions (ex_store [])) 11 (user_id ex_alice)"
    by (simp add: isUserAssignedToSession_def ex_defs)
  have a12: "isUserAssignedToSession (sessions (ex_store [])) 12 (user_id ex_alice)"
    by (simp add: isUserAssignedToSession_def ex_defs)
  have c11: "\<not> isUserAssignedToSession (sessions (ex_store [])) 11 (user_id ex_carol)"
    by (simp add: isUserAssignedToSession_def ex_defs)
  have n: "\<not> name_missing (Some ''Alice'')" "\<not> name_missing (Some ''Zed'')" "name_missing (Some [])"
    by (simp_all add: name_missing_def trim_def is_whitespace_def)
  have "castVoteInSession (ex_store []) 1500 ex_alice (ex_body (Some 11) (Some ''Alice''))
     = (ex_store [], json 400 ''Voting session is not active'')"
    using inactive_session_rejects_cast[OF _ s11 d, where body = "ex_body (Some 11) (Some ''Alice'')" and usr = ex_alice and now = 1500]
      a11 n by (simp add: ex_body_def)
  moreover have "castVoteInSession (ex_store []) 1500 ex_alice ?b12
     = (ex_store [], json 400 ''Voting session is not active'')"
    using inactive_session_rejects_cast[OF _ s12 c, where body = ?b12 and usr = ex_alice and now = 1500] a12 n by simp
  moreover have "castVoteInSession (ex_store []) 1500 ex_alice (ex_body (Some 11) (Some []))
     = (ex_store [], json 400 ''Candidate name is required'')"
    using inactive_session_rejects_cast[OF _ s11 d, where body = "ex_body (Some 11) (Some [])" and usr = ex_alice and now = 1500]
      n by (simp add: ex_body_def)
  moreover have "castVoteInSession (ex_store []) 1500 ex_alice (ex_body (Some 11) (Some [CHR 0xA0]))
     = (ex_store [], json 400 ''Candidate name is required'')"
    using inactive_session_rejects_cast[OF _ s11 d, where body = "ex_body (Some 11) (Some [CHR 0xA0])" and usr = ex_alice and now = 1500]
      name_missing_nbsp by (simp add: ex_body_def)
  moreover have "castVoteInSession (ex_store []) 1500 ex_carol (ex_body (Some 11) (Some ''Alice''))
     = (ex_store [], json 403 ''You are not assigned to this voting session'')"
    using inactive_session_rejects_cast[OF _ s11 d, where body = "ex_body (Some 11) (Some ''Alice'')" and usr = ex_carol and now = 1500]
      c11 n by (simp add: ex_body_def)
  ultimately show ?thesis by simp
qed

text \<open>
  C4 as stated fails: into the draft session 11, Alice's cast with an empty
  candidate name is answered \<open>Candidate name is required\<close>, which is
  \<open>InvalidInput\<close>, and the cast of Carol, who is not assigned, is answered 403.
\<close>

theorem draft_session_counterexample:
  "VotingSession_findById 11 (sessions (ex_store [])) = Some (ex_session 11 Draft)
   \<and> status (ex_session 11 Draft) = Draft
   \<and> snd (castVoteInSession (ex_store []) 1500 ex_alice (ex_body (Some 11) (Some [])))
       = json 400 ''Candidate name is required''
   \<and> spec_error_kind (snd (castVoteInSession (ex_store []) 1500 ex_alice
                              (ex_body (Some 11) (Some [])))) = Some InvalidInput
   \<and> spec_error_kind (snd (castVoteInSession (ex_store []) 1500 ex_alice
                              (ex_body (Some 11) (Some [])))) \<noteq> Some InvalidState
   \<and> spec_error_kind (snd (castVoteInSession (ex_store []) 1500 ex_carol
                              (ex_body (Some 11) (Some ''Alice'')))) = Some Forbidden"
  by (simp add: castVoteInSession_def ex_defs name_missing_def trim_def is_whitespace_def
        VotingSession_findById_def isUserAssignedToSession_def json_def spec_error_kind_def)

section \<open>C5: results aggregation\<close>

subsection \<open>The \<open>$group\<close> stage\<close>

lemma map_fst_group_accumulate:
  "set (map fst (group_accumulate v gs)) = insert (candidateName v) (set (map fst gs))"
  by (induction v gs rule: group_accumulate.induct) auto

lemma distinct_group_accumulate:
  "distinct (map fst gs) \<Longrightarrow> distinct (map fst (group_accumulate v gs))"
proof (induction v gs rule: group_accumulate.induct)
  case (1 v)
  show ?case by simp
next
  case (2 v n c k gs)
  show ?case
  proof (cases "n = candidateName v")
    case True
    with "2.prems" show ?thesis by simp
  next
    case False
    with 2 have "distinct (map fst (group_accumulate v gs))" by simp
    moreover have "n \<notin> set (map fst (group_accumulate v gs))"
      using "2.prems" False by (simp add: map_fst_group_accumulate del: set_map)
    ultimately show ?thesis using False by simp
  qed
qed

lemma map_of_group_accumulate:
  "map_of (group_accumulate v gs) =
     (map_of gs)(candidateName v \<mapsto>
        (case map_of gs (candidateName v) of
           None \<Rightarrow> (1, if isCustomCandidate v then 1 else 0)
         | Some (c, k) \<Rightarrow> (c + 1, k + (if isCustomCandidate v then 1 else 0))))"
  by (induction v gs rule: group_accumulate.induct) (auto simp: fun_eq_iff)

lemma group_stage_snoc: "group_stage (vs @ [v]) = group_accumulate v (group_stage vs)"
  by (simp add: group_stage_def)

lemma group_stage_names: "set (map fst (group_stage vs)) = candidateName ` set vs"
proof (induction vs rule: rev_induct)
  case Nil
  show ?case by (simp add: group_stage_def)
next
  case (snoc v vs)
  then show ?case
    by (simp add: group_stage_snoc map_fst_group_accumulate del: set_map)
qed

lemma group_stage_distinct: "distinct (map fst (group_stage vs))"
proof (induction vs rule: rev_induct)
  case Nil
  show ?case by (simp add: group_stage_def)
next
  case (snoc v vs)
  then show ?case by (simp add: group_stage_snoc distinct_group_accumulate)
qed

lemma no_ballot_for_name:
  "n \<notin> candidateName ` set vs \<Longrightarrow> filter (\<lambda>v. candidateName v = n \<and> P v) vs = []"
  by (induction vs) auto

lemma group_stage_counts:
  "map_of (group_stage vs) n =
     (if n \<in> candidateName ` set vs
      then Some (length (filter (\<lambda>v. candidateName v = n) vs),
                 length (filter (\<lambda>v. candidateName v = n \<and> isCustomCandidate v) vs))
      else None)"
proof (induction vs rule: rev_induct)
  case Nil
  show ?case by (simp add: group_stage_def)
next
  case (snoc v vs)
  show ?case
  proof (cases "n = candidateName v")
    case True
    show ?thesis
    proof (cases "n \<in> candidateName ` set vs")
      case True
      with snoc \<open>n = candidateName v\<close> show ?thesis
        by (simp add: group_stage_snoc map_of_group_accumulate)
    next
      case False
      have "filter (\<lambda>v. candidateName v = n \<and> True) vs = []"
        using False by (rule no_ballot_for_name)
      moreover have "filter (\<lambda>v. candidateName v = n \<and> isCustomCandidate v) vs = []"
        using False by (rule no_ballot_for_name)
      ultimately show ?thesis
        using snoc False \<open>n = candidateName v\<close>
        by (simp add: group_stage_snoc map_of_group_accumulate)
    qed
  next
    case False
    then show ?thesis
      using snoc by (auto simp: group_stage_snoc map_of_group_accumulate)
  qed
qed

lemma group_stage_entry:
  assumes "g \<in> set (group_stage vs)"
  shows "fst g \<in> candidateName ` set vs
         \<and> fst (snd g) = length (filter (\<lambda>v. candidateName v = fst g) vs)
         \<and> snd (snd g) = length (filter (\<lambda>v. candidateName v = fst g \<and> isCustomCandidate v) vs)"
proof -
  obtain n c k where g: "g = (n, c, k)" by (cases g) auto
  with assms have "(n, (c, k)) \<in> set (group_stage vs)" by simp
  then have "map_of (group_stage vs) n = Some (c, k)"
    using map_of_eq_Some_iff[OF group_stage_distinct] by blast
  then show ?thesis
    unfolding g by (simp add: group_stage_counts split: if_splits)
qed

subsection \<open>The \<open>$sort\<close> and \<open>$project\<close> stages\<close>

lemma sort_stage_set: "set (sort_stage gs) = set gs"
  by (simp add: sort_stage_def)

lemma sort_stage_distinct: "distinct (map fst (sort_stage gs)) = distinct (map fst gs)"
proof -
  have "mset (map fst (sort_stage gs)) = mset (map fst gs)"
    by (simp add: sort_stage_def)
  then show ?thesis by (metis mset_eq_imp_distinct_iff)
qed

lemma sort_stage_descending:
  "sorted_wrt (\<lambda>a b. fst (snd b) \<le> fst (snd a)) (sort_stage gs)"
proof -
  have "sorted (map (\<lambda>g. - int (fst (snd g))) (sort_stage gs))"
    unfolding sort_stage_def by (rule sorted_sort_key)
  then show ?thesis
    by (simp add: sorted_map sorted_wrt_iff_nth_less)
qed

lemma project_stage_names: "map entry_candidateName (project_stage gs) = map fst gs"
  by (simp add: project_stage_def)

lemma project_stage_descending:
  "sorted_wrt (\<lambda>a b. fst (snd b) \<le> fst (snd a)) gs \<Longrightarrow>
   sorted_wrt (\<lambda>a b. voteCount b \<le> voteCount a) (project_stage gs)"
  by (simp add: project_stage_def sorted_wrt_map)

text \<open>
  C5: for the ballots of a session, \<open>Vote.getSessionResults\<close> returns one entry for
  each candidate name that has a ballot and for no other name, with the number of
  ballots for that name (at least one) and the number of those that are custom; the
  entries are in descending order of vote count; \<open>totalVotes\<close> is the number of
  the session's ballots, \<open>totalCandidates\<close> the number of distinct names, and
  \<open>candidates\<close> the distinct names in ascending order.
\<close>

theorem getSessionResults_aggregates:
  "distinct (map entry_candidateName (results (Vote_getSessionResults vs sid)))
   \<and> set (map entry_candidateName (results (Vote_getSessionResults vs sid)))
       = candidateName ` set (filter (\<lambda>v. votingSessionId v = Some sid) vs)
   \<and> (\<forall>e \<in> set (results (Vote_getSessionResults vs sid)).
         voteCount e
           = length (filter (\<lambda>v. candidateName v = entry_candidateName e)
                       (filter (\<lambda>v. votingSessionId v = Some sid) vs))
       \<and> customCandidateCount e
           = length (filter (\<lambda>v. candidateName v = entry_candidateName e \<and> isCustomCandidate v)
                       (filter (\<lambda>v. votingSessionId v = Some sid) vs))
       \<and> 1 \<le> voteCount e)
   \<and> sorted_wrt (\<lambda>a b. voteCount b \<le> voteCount a) (results (Vote_getSessionResults vs sid))
   \<and> totalVotes (Vote_getSessionResults vs sid)
       = length (filter (\<lambda>v. votingSessionId v = Some sid) vs)
   \<and> totalCandidates (Vote_getSessionResults vs sid)
       = card (candidateName ` set (filter (\<lambda>v. votingSessionId v = Some sid) vs))
   \<and> candidate_names (Vote_getSessionResults vs sid)
       = sorted_list_of_set (candidateName ` set (filter (\<lambda>v. votingSessionId v = Some sid) vs))"
proof -
  let ?sv = "filter (\<lambda>v. votingSessionId v = Some sid) vs"
  let ?gs = "sort_stage (group_stage ?sv)"
  have res: "results (Vote_getSessionResults vs sid) = project_stage ?gs"
    by (simp add: Vote_getSessionResults_def match_stage_def Let_def)
  have names: "map entry_candidateName (project_stage ?gs) = map fst ?gs"
    by (rule project_stage_names)
  have 1: "distinct (map entry_candidateName (results (Vote_getSessionResults vs sid)))"
    unfolding res names by (simp add: sort_stage_distinct group_stage_distinct)
  have "set (map fst ?gs) = set (map fst (group_stage ?sv))"
    by (simp add: sort_stage_set)
  then have 2: "set (map entry_candidateName (results (Vote_getSessionResults vs sid)))
                  = candidateName ` set ?sv"
    unfolding res names by (simp only: group_stage_names)
  have 3: "\<forall>e \<in> set (results (Vote_getSessionResults vs sid)).
         voteCount e = length (filter (\<lambda>v. candidateName v = entry_candidateName e) ?sv)
       \<and> customCandidateCount e
           = length (filter (\<lambda>v. candidateName v = entry_candidateName e \<and> isCustomCandidate v) ?sv)
       \<and> 1 \<le> voteCount e"
  proof
    fix e assume "e \<in> set (results (Vote_getSessionResults vs sid))"
    then obtain g where g: "g \<in> set (group_stage ?sv)"
      and e: "e = \<lparr>entry_candidateName = fst g, voteCount = fst (snd g),
                   customCandidateCount = snd (snd g)\<rparr>"
      unfolding res by (auto simp: project_stage_def sort_stage_set)
    from group_stage_entry[OF g] have
      n: "fst g \<in> candidateName ` set ?sv"
      and c: "fst (snd g) = length (filter (\<lambda>v. candidateName v = fst g) ?sv)"
      and k: "snd (snd g) = length (filter (\<lambda>v. candidateName v = fst g \<and> isCustomCandidate v) ?sv)"
      by blast+
    from n obtain v where "v \<in> set ?sv" "candidateName v = fst g" by auto
    then have "filter (\<lambda>v. candidateName v = fst g) ?sv \<noteq> []"
      by (auto simp: filter_empty_conv)
    then have "1 \<le> length (filter (\<lambda>v. candidateName v = fst g) ?sv)"
      by (simp add: Suc_le_eq)
    with c k show "voteCount e = length (filter (\<lambda>v. candidateName v = entry_candidateName e) ?sv)
       \<and> customCandidateCount e
           = length (filter (\<lambda>v. candidateName v = entry_candidateName e \<and> isCustomCandidate v) ?sv)
       \<and> 1 \<le> voteCount e"
      by (simp add: e)
  qed
  have 4: "sorted_wrt (\<lambda>a b. voteCount b \<le> voteCount a) (results (Vote_getSessionResults vs sid))"
    unfolding res by (rule project_stage_descending) (rule sort_stage_descending)
  have 5: "totalVotes (Vote_getSessionResults vs sid) = length ?sv"
    by (simp add: Vote_getSessionResults_def VoteModel_countDocuments_def Let_def)
  have 6: "totalCandidates (Vote_getSessionResults vs sid) = card (candidateName ` set ?sv)"
    by (simp add: Vote_getSessionResults_def VoteModel_distinct_candidateName_def Let_def
          length_remdups_card_conv del: set_filter)
  have 7: "candidate_names (Vote_getSessionResults vs sid)
             = sorted_list_of_set (candidateName ` set ?sv)"
  proof -
    have "candidate_names (Vote_getSessionResults vs sid) = sort (remdups (map candidateName ?sv))"
      by (simp add: Vote_getSessionResults_def VoteModel_distinct_candidateName_def Let_def)
    also have "\<dots> = sorted_list_of_set (set (map candidateName ?sv))"
      by (simp only: sorted_list_of_set_sort_remdups)
    finally show ?thesis by (simp only: set_map)
  qed
  show ?thesis using 1 2 3 4 5 6 7 by blast
qed

text \<open>
  Three ballots in session 10, one for B and then two for A: the entry of A, with
  count 2, comes before the entry of B, with count 1; the total is 3 and there are
  2 distinct names.
\<close>

lemma ex_results:
  "Vote_getSessionResults
     [ex_ballot 1 2 ''B'' 1500, ex_ballot 2 3 ''A'' 1501, ex_ballot 3 4 ''A'' 1502] 10
   = \<lparr>results = [\<lparr>entry_candidateName = ''A'', voteCount = 2, customCandidateCount = 0\<rparr>,
                  \<lparr>entry_candidateName = ''B'', voteCount = 1, customCandidateCount = 0\<rparr>],
      totalVotes = 3, totalCandidates = 2, candidate_names = [''A'', ''B'']\<rparr>"
  by (simp add: Vote_getSessionResults_def match_stage_def group_stage_def sort_stage_def
        project_stage_def VoteModel_countDocuments_def VoteModel_distinct_candidateName_def
        ex_ballot_def Let_def less_eq_char_def less_char_def)

theorem getSessionResults_aggregates_witness:
  "results (Vote_getSessionResults
     [ex_ballot 1 2 ''B'' 1500, ex_ballot 2 3 ''A'' 1501, ex_ballot 3 4 ''A'' 1502] 10)
     = [\<lparr>entry_candidateName = ''A'', voteCount = 2, customCandidateCount = 0\<rparr>,
        \<lparr>entry_candidateName = ''B'', voteCount = 1, customCandidateCount = 0\<rparr>]
   \<and> sorted_wrt (\<lambda>a b. voteCount b \<le> voteCount a)
        [\<lparr>entry_candidateName = ''A'', voteCount = 2, customCandidateCount = 0\<rparr>,
         \<lparr>entry_candidateName = ''B'', voteCount = 1, customCandidateCount = 0\<rparr>]
   \<and> totalVotes (Vote_getSessionResults
        [ex_ballot 1 2 ''B'' 1500, ex_ballot 2 3 ''A'' 1501, ex_ballot 3 4 ''A'' 1502] 10) = 3
   \<and> card (candidateName ` set (filter (\<lambda>v. votingSessionId v = Some 10)
        [ex_ballot 1 2 ''B'' 1500, ex_ballot 2 3 ''A'' 1501, ex_ballot 3 4 ''A'' 1502])) = 2
   \<and> sorted_list_of_set (candidateName ` set (filter (\<lambda>v. votingSessionId v = Some 10)
        [ex_ballot 1 2 ''B'' 1500, ex_ballot 2 3 ''A'' 1501, ex_ballot 3 4 ''A'' 1502]))
       = [''A'', ''B'']"
  using getSessionResults_aggregates[of
      "[ex_ballot 1 2 ''B'' 1500, ex_ballot 2 3 ''A'' 1501, ex_ballot 3 4 ''A'' 1502]" 10]
  unfolding ex_results by simp

section \<open>C6: deleting a user\<close>

lemma deleteUser_other:
  "id' \<noteq> user_id usr \<Longrightarrow> deleteUser st usr id' = (st, json 500 ''Server error deleting user'')"
  by (simp add: deleteUser_def read_variable_def deleteUser_scope_def)

lemma deleteUser_self:
  "deleteUser st usr (user_id usr) = (st, json 403 ''Cannot delete your own account'')"
  by (simp add: deleteUser_def)

lemma ex_admin_token:
  "authenticateToken ex_verify (users (ex_store vs)) (Some ''Bearer t1'') = Inr ex_admin"
  by (simp add: authenticateToken_def bearer_token_def ex_verify_def User_findById_def
        ex_store_def ex_admin_def)

text \<open>
  C6 at the failing input: the administrator (user 1) deletes the regular user 2, who
  has a ballot in session 10. The handler reads the undeclared variable
  \<open>userId\<close>, so the answer is 500, user 2 and the ballot stay, and the results of
  session 10 still count the ballot. Deleting the other administrator (user 5) is
  answered 500 as well, not 403. Only the deletion of the caller's own account is
  answered 403.
\<close>

theorem deleteUser_leaves_user_and_ballots:
  "route_delete_user ex_verify (ex_store [ex_ballot 1 2 ''Alice'' 1500]) (Some ''Bearer t1'') 2
     = (ex_store [ex_ballot 1 2 ''Alice'' 1500], json 500 ''Server error deleting user'')
   \<and> User_findById 2 (users (fst (route_delete_user ex_verify
         (ex_store [ex_ballot 1 2 ''Alice'' 1500]) (Some ''Bearer t1'') 2))) = Some ex_alice
   \<and> totalVotes (Vote_getSessionResults (votes (fst (route_delete_user ex_verify
         (ex_store [ex_ballot 1 2 ''Alice'' 1500]) (Some ''Bearer t1'') 2))) 10) = 1
   \<and> route_delete_user ex_verify (ex_store [ex_ballot 1 2 ''Alice'' 1500]) (Some ''Bearer t1'') 5
     = (ex_store [ex_ballot 1 2 ''Alice'' 1500], json 500 ''Server error deleting user'')
   \<and> route_delete_user ex_verify (ex_store [ex_ballot 1 2 ''Alice'' 1500]) (Some ''Bearer t1'') 1
     = (ex_store [ex_ballot 1 2 ''Alice'' 1500], json 403 ''Cannot delete your own account'')"
proof -
  let ?st = "ex_store [ex_ballot 1 2 ''Alice'' 1500]"
  have adm: "requireAdmin ex_admin = None" by (simp add: requireAdmin_def ex_admin_def)
  have uid: "user_id ex_admin = 1" by (simp add: ex_admin_def)
  have r2: "route_delete_user ex_verify ?st (Some ''Bearer t1'') 2
              = (?st, json 500 ''Server error deleting user'')"
    by (simp add: route_delete_user_def ex_admin_token adm deleteUser_other uid)
  have r5: "route_delete_user ex_verify ?st (Some ''Bearer t1'') 5
              = (?st, json 500 ''Server error deleting user'')"
    by (simp add: route_delete_user_def ex_admin_token adm deleteUser_other uid)
  have r1: "route_delete_user ex_verify ?st (Some ''Bearer t1'') 1
              = (?st, json 403 ''Cannot delete your own account'')"
    using deleteUser_self[of ?st ex_admin]
    by (simp add: route_delete_user_def ex_admin_token adm uid)
  have u: "User_findById 2 (users ?st) = Some ex_alice"
    by (simp add: User_findById_def ex_defs)
  have v: "totalVotes (Vote_getSessionResults (votes ?st) 10) = 1"
    by (simp add: Vote_getSessionResults_def VoteModel_countDocuments_def Let_def ex_defs)
  show ?thesis unfolding r2 r5 r1 using u v by simp
qed

section \<open>C7: the legacy cast into the global poll\<close>

lemma createVote_outcomes:
  "createVote vs now uid name = Inl (Error ''User has already voted'')
   \<or> createVote vs now uid name = Inl (ValidationError ''votingSessionId'')"
  by (simp add: createVote_def VoteModel_save_def new_VoteModel_def Let_def)

lemma castVote_never_stores:
  "fst (castVote st now usr n) = st \<and> res_status (snd (castVote st now usr n)) \<noteq> 201"
proof (cases "name_missing n")
  case True
  then show ?thesis by (simp add: castVote_def json_def)
next
  case False
  from createVote_outcomes[of "votes st" now "user_id usr" "trim (the n)"]
  show ?thesis
    using False by (auto simp: castVote_def json_def Let_def)
qed

text \<open>
  C7 at the failing input: Alice has no ballot and casts for John Doe on the legacy
  path. \<open>createVote\<close> builds a vote without \<open>votingSessionId\<close>, which the schema
  requires, so \<open>save\<close> throws a validation error: the answer is 500 and no ballot
  is stored. Her second cast is answered 500 again, not 409.
\<close>

theorem legacy_cast_stores_nothing:
  "VoteModel_findOne (\<lambda>v. userId v = 2 \<and> votingSessionId v = None) (votes (ex_store [])) = None
   \<and> createVote (votes (ex_store [])) 1500 2 ''John Doe''
       = Inl (ValidationError ''votingSessionId'')
   \<and> route_cast_vote ex_verify (ex_store []) 1500 (Some ''Bearer t2'') (Some ''John Doe'')
       = (ex_store [], json 500 ''Server error during vote casting'')
   \<and> route_cast_vote ex_verify
        (fst (route_cast_vote ex_verify (ex_store []) 1500 (Some ''Bearer t2'') (Some ''John Doe'')))
        1600 (Some ''Bearer t2'') (Some ''Jane Smith'')
       = (ex_store [], json 500 ''Server error during vote casting'')"
proof -
  have tok: "authenticateToken ex_verify (users (ex_store [])) (Some ''Bearer t2'') = Inr ex_alice"
    by (simp add: authenticateToken_def bearer_token_def ex_verify_def User_findById_def
          ex_store_def ex_admin_def ex_alice_def)
  have ru: "requireUser ex_alice = None" by (simp add: requireUser_def ex_alice_def)
  have uid2: "user_id ex_alice = 2" by (simp add: ex_alice_def)
  have cv: "\<And>now n. createVote (votes (ex_store [])) now 2 n = Inl (ValidationError ''votingSessionId'')"
    by (simp add: createVote_def VoteModel_findOne_def VoteModel_save_def new_VoteModel_def
          Let_def ex_store_def)
  have nm: "\<not> name_missing (Some ''John Doe'')" "\<not> name_missing (Some ''Jane Smith'')"
    by (simp_all add: name_missing_def trim_def is_whitespace_def)
  have c: "\<And>now n. \<not> name_missing (Some n) \<Longrightarrow>
             castVote (ex_store []) now ex_alice (Some n)
               = (ex_store [], json 500 ''Server error during vote casting'')"
    using cv uid2 by (simp add: castVote_def Let_def)
  have r: "\<And>now n. \<not> name_missing (Some n) \<Longrightarrow>
             route_cast_vote ex_verify (ex_store []) now (Some ''Bearer t2'') (Some n)
               = (ex_store [], json 500 ''Server error during vote casting'')"
    by (simp add: route_cast_vote_def tok ru c)
  have f: "VoteModel_findOne (\<lambda>v. userId v = 2 \<and> votingSessionId v = None) (votes (ex_store [])) = None"
    by (simp add: VoteModel_findOne_def ex_store_def)
  show ?thesis using f cv r[OF nm(1)] r[OF nm(2)] by simp
qed

section \<open>C8: authentication\<close>

lemma bearer_token_absent: "bearer_token None = None"
  by (simp add: bearer_token_def)

text \<open>
  C8, as the source has it: without a bearer token (no header, or a header without a
  second part) the request is answered 401; with a token that \<open>jwt.verify\<close>
  rejects it is answered 403; with a valid token whose user is not in the user
  collection it is answered 404 \<open>User not found\<close>; otherwise the request goes on
  with the stored user. In the three failing cases the handler is not reached.
\<close>

theorem authenticateToken_outcomes:
  "authenticateToken jwt_verify us None = Inl (json 401 ''Access token required'')
   \<and> (bearer_token h = None \<longrightarrow>
        authenticateToken jwt_verify us h = Inl (json 401 ''Access token required''))
   \<and> (bearer_token h = Some t \<and> jwt_verify t = None \<longrightarrow>
        authenticateToken jwt_verify us h = Inl (json 403 ''Invalid or expired token''))
   \<and> (bearer_token h = Some t \<and> jwt_verify t = Some i \<and> User_findById i us = None \<longrightarrow>
        authenticateToken jwt_verify us h = Inl (json 404 ''User not found''))
   \<and> (bearer_token h = Some t \<and> jwt_verify t = Some i \<and> User_findById i us = Some u \<longrightarrow>
        authenticateToken jwt_verify us h = Inr u)"
  by (simp add: authenticateToken_def bearer_token_absent)

text \<open>
  The four outcomes on the example store: a header without a token, the unknown
  token \<open>t7\<close>, the token \<open>t9\<close> of a user who is gone, and Alice's token.
\<close>

theorem authenticateToken_outcomes_witness:
  "authenticateToken ex_verify (users (ex_store [])) (Some ''Bearer'')
     = Inl (json 401 ''Access token required'')
   \<and> authenticateToken ex_verify (users (ex_store [])) (Some ''Bearer t7'')
     = Inl (json 403 ''Invalid or expired token'')
   \<and> authenticateToken ex_verify (users (ex_store [])) (Some ''Bearer t9'')
     = Inl (json 404 ''User not found'')
   \<and> authenticateToken ex_verify (users (ex_store [])) (Some ''Bearer t2'') = Inr ex_alice"
proof -
  let ?us = "users (ex_store [])"
  have b0: "bearer_token (Some ''Bearer'') = None" by (simp add: bearer_token_def)
  have b7: "bearer_token (Some ''Bearer t7'') = Some ''t7''" by (simp add: bearer_token_def)
  have b9: "bearer_token (Some ''Bearer t9'') = Some ''t9''" by (simp add: bearer_token_def)
  have b2: "bearer_token (Some ''Bearer t2'') = Some ''t2''" by (simp add: bearer_token_def)
  have v7: "ex_verify ''t7'' = None" by (simp add: ex_verify_def)
  have v9: "ex_verify ''t9'' = Some 9" by (simp add: ex_verify_def)
  have v2: "ex_verify ''t2'' = Some 2" by (simp add: ex_verify_def)
  have u9: "User_findById 9 ?us = None" by (simp add: User_findById_def ex_defs)
  have u2: "User_findById 2 ?us = Some ex_alice" by (simp add: User_findById_def ex_defs)
  have "authenticateToken ex_verify ?us (Some ''Bearer'') = Inl (json 401 ''Access token required'')"
    using authenticateToken_outcomes[of ex_verify ?us "Some ''Bearer''"] b0 by simp
  moreover have "authenticateToken ex_verify ?us (Some ''Bearer t7'')
                   = Inl (json 403 ''Invalid or expired token'')"
    using authenticateToken_outcomes[of ex_verify ?us "Some ''Bearer t7''" "''t7''"] b7 v7 by simp
  moreover have "authenticateToken ex_verify ?us (Some ''Bearer t9'')
                   = Inl (json 404 ''User not found'')"
    using authenticateToken_outcomes[of ex_verify ?us "Some ''Bearer t9''" "''t9''" 9] b9 v9 u9
    by simp
  moreover have "authenticateToken ex_verify ?us (Some ''Bearer t2'') = Inr ex_alice"
    using authenticateToken_outcomes[of ex_verify ?us "Some ''Bearer t2''" "''t2''" 2 ex_alice]
      b2 v2 u2 by simp
  ultimately show ?thesis by simp
qed

text \<open>
  C8 as stated fails: the token \<open>t9\<close> is valid and its user 9 is not in the user
  collection; the answer is 404, which is neither 401 nor 403.
\<close>

theorem missing_user_counterexample:
  "ex_verify ''t9'' = Some 9
   \<and> User_findById 9 (users (ex_store [])) = None
   \<and> authenticateToken ex_verify (users (ex_store [])) (Some ''Bearer t9'')
       = Inl (json 404 ''User not found'')
   \<and> res_status (json 404 ''User not found'') \<noteq> 401
   \<and> res_status (json 404 ''User not found'') \<noteq> 403
   \<and> spec_error_kind (json 404 ''User not found'') = Some NotFound"
  by (simp add: authenticateToken_def bearer_token_def ex_verify_def User_findById_def
        ex_defs json_def spec_error_kind_def)

section \<open>C9: a candidate name that is not in the session's list\<close>

text \<open>
  C9: a cast with \<open>isCustomCandidate\<close> false and no \<open>candidateId\<close> that passes
  the checks of session, assignment, status and time, by a user without a ballot in
  the session, is answered 201 and stored with the trimmed name and
  \<open>isCustomCandidate\<close> false. Nothing is assumed about the session's candidate
  list or its \<open>allowNewCandidates\<close> flag: the name is never compared with the
  list.
\<close>

theorem unlisted_name_is_accepted:
  assumes sid: "body_votingSessionId body = Some sid"
    and name: "\<not> name_missing (body_candidateName body)"
    and sess: "VotingSession_findById sid (sessions st) = Some s"
    and asg: "isUserAssignedToSession (sessions st) sid (user_id usr)"
    and act: "status s = Active"
    and started: "case startDate s of None \<Rightarrow> True | Some d \<Rightarrow> d \<le> now"
    and not_ended: "case endDate s of None \<Rightarrow> True | Some d \<Rightarrow> now \<le> d"
    and not_custom: "\<not> body_isCustomCandidate body"
    and no_id: "body_candidateId body = None"
    and fresh: "\<not> has_ballot (votes st) (user_id usr) sid"
  shows "castVoteInSession st now usr body =
           (st\<lparr>votes := votes st @
                 [\<lparr>vote_id = fresh_id (votes st), userId = user_id usr,
                   votingSessionId = Some sid, candidateId = None,
                   candidateName = trim (the (body_candidateName body)), timestamp = now,
                   isCustomCandidate = False\<rparr>]\<rparr>,
            \<lparr>res_status = 201, res_message = ''Vote cast successfully'',
             res_payload = VotePayload
               \<lparr>sum_id = fresh_id (votes st),
                sum_candidateName = trim (the (body_candidateName body)),
                sum_votingSessionId = Some sid, sum_timestamp = now,
                sum_isCustomCandidate = False\<rparr>\<rparr>)"
proof -
  have custom: "body_isCustomCandidate body \<longrightarrow> allowNewCandidates s"
    using not_custom by simp
  have cand: "body_isCustomCandidate body \<or> body_candidateId body = None \<or>
               list_ex (\<lambda>c. Some (cand_id c) = body_candidateId body) (candidates s)"
    using no_id by simp
  show ?thesis
    using castVoteInSession_accepts[OF sid name sess asg act started not_ended custom cand fresh]
      not_custom no_id by simp
qed

text \<open>
  Session 10 lists Alice and Bob and does not allow new candidates; Alice's cast for
  \<open>Zed\<close>, sent with a no-break space in front and a space behind, is stored
  as a regular ballot for Zed.
\<close>

theorem unlisted_name_is_accepted_witness:
  "''Zed'' \<notin> set (map cand_name (candidates (ex_session 10 Active)))
   \<and> \<not> allowNewCandidates (ex_session 10 Active)
   \<and> castVoteInSession (ex_store []) 1500 ex_alice (ex_body (Some 10) (Some (CHR 0xA0 # ''Zed '')))
       = (ex_store [ex_ballot 1 2 ''Zed'' 1500],
          \<lparr>res_status = 201, res_message = ''Vote cast successfully'',
           res_payload = VotePayload
             \<lparr>sum_id = 1, sum_candidateName = ''Zed'', sum_votingSessionId = Some 10,
              sum_timestamp = 1500, sum_isCustomCandidate = False\<rparr>\<rparr>)"
proof -
  let ?b = "ex_body (Some 10) (Some (CHR 0xA0 # ''Zed ''))"
  have sid: "body_votingSessionId ?b = Some 10" by (simp add: ex_body_def)
  have t: "trim (CHR 0xA0 # ''Zed '') = ''Zed''" by (simp add: trim_def is_whitespace_def)
  have name: "\<not> name_missing (body_candidateName ?b)"
    by (simp add: ex_body_def name_missing_def t)
  have sess: "VotingSession_findById 10 (sessions (ex_store [])) = Some (ex_session 10 Active)"
    by (simp add: VotingSession_findById_def ex_defs)
  have asg: "isUserAssignedToSession (sessions (ex_store [])) 10 (user_id ex_alice)"
    by (simp add: isUserAssignedToSession_def ex_defs)
  have act: "status (ex_session 10 Active) = Active" by (simp add: ex_session_def)
  have started: "case startDate (ex_session 10 Active) of None \<Rightarrow> True | Some d \<Rightarrow> d \<le> 1500"
    by (simp add: ex_session_def)
  have not_ended: "case endDate (ex_session 10 Active) of None \<Rightarrow> True | Some d \<Rightarrow> 1500 \<le> d"
    by (simp add: ex_session_def)
  have nc: "\<not> body_isCustomCandidate ?b" by (simp add: ex_body_def)
  have ni: "body_candidateId ?b = None" by (simp add: ex_body_def)
  have fresh: "\<not> has_ballot (votes (ex_store [])) (user_id ex_alice) 10"
    by (simp add: has_ballot_def ex_store_def)
  have "castVoteInSession (ex_store []) 1500 ex_alice ?b
       = (ex_store [ex_ballot 1 2 ''Zed'' 1500],
          \<lparr>res_status = 201, res_message = ''Vote cast successfully'',
           res_payload = VotePayload
             \<lparr>sum_id = 1, sum_candidateName = ''Zed'', sum_votingSessionId = Some 10,
              sum_timestamp = 1500, sum_isCustomCandidate = False\<rparr>\<rparr>)"
    unfolding unlisted_name_is_accepted[OF sid name sess asg act started not_ended nc ni fresh]
    by (simp add: ex_body_def t fresh_id_def ex_store_def ex_ballot_def ex_alice_def)
  moreover have "''Zed'' \<notin> set (map cand_name (candidates (ex_session 10 Active)))"
    by (simp add: ex_session_def ex_candidates_def)
  moreover have "\<not> allowNewCandidates (ex_session 10 Active)" by (simp add: ex_session_def)
  ultimately show ?thesis by simp
qed

section \<open>C10: who may read a session with its votes\<close>

lemma getSessionVotes_set:
  "set (Vote_getSessionVotes vs sid) = {v \<in> set vs. votingSessionId v = Some sid}"
  by (auto simp: Vote_getSessionVotes_def)

text \<open>
  C10: for every caller whom \<open>authenticateToken\<close> lets through, whatever the
  caller's role and whether or not the caller is assigned to the session or created
  it, \<open>GET /:id\<close> on an existing session is answered 200 with the session, its
  aggregated results and one record for every ballot of the session, each with the
  voter populated from the user collection. For the same caller, when neither an
  administrator nor assigned to the session, \<open>GET /:id/results\<close> is answered 403.
\<close>

theorem session_detail_needs_no_assignment:
  assumes auth: "authenticateToken jwt_verify (users st) h = Inr usr"
    and sess: "VotingSession_findById sid (sessions st) = Some s"
  shows "route_get_session jwt_verify st h sid =
           \<lparr>res_status = 200, res_message = ''Voting session retrieved successfully'',
            res_payload = SessionDetail s (Vote_getSessionResults (votes st) sid)
              (map (\<lambda>vote. \<lparr>view_id = vote_id vote,
                              view_candidateName = candidateName vote,
                              view_user = populate_user (users st) (userId vote),
                              view_timestamp = timestamp vote,
                              view_isCustomCandidate = isCustomCandidate vote\<rparr>)
                 (Vote_getSessionVotes (votes st) sid))\<rparr>
       \<and> (\<forall>v \<in> set (votes st). votingSessionId v = Some sid \<longrightarrow>
             v \<in> set (Vote_getSessionVotes (votes st) sid))
       \<and> (\<forall>v \<in> set (votes st). \<forall>u. User_findById (userId v) (users st) = Some u \<longrightarrow>
             populate_user (users st) (userId v)
               = Some \<lparr>pop_id = user_id u, pop_username = username u, pop_email = email u\<rparr>)
       \<and> (role usr \<noteq> RoleAdmin
            \<and> \<not> isUserAssignedToSession (sessions st) sid (user_id usr) \<longrightarrow>
            route_get_session_results jwt_verify st h sid
              = json 403 ''You are not assigned to this voting session'')"
proof (intro conjI)
  show "route_get_session jwt_verify st h sid =
           \<lparr>res_status = 200, res_message = ''Voting session retrieved successfully'',
            res_payload = SessionDetail s (Vote_getSessionResults (votes st) sid)
              (map (\<lambda>vote. \<lparr>view_id = vote_id vote,
                              view_candidateName = candidateName vote,
                              view_user = populate_user (users st) (userId vote),
                              view_timestamp = timestamp vote,
                              view_isCustomCandidate = isCustomCandidate vote\<rparr>)
                 (Vote_getSessionVotes (votes st) sid))\<rparr>"
    by (simp add: route_get_session_def auth getVotingSessionById_def sess Let_def)
  show "\<forall>v \<in> set (votes st). votingSessionId v = Some sid \<longrightarrow>
             v \<in> set (Vote_getSessionVotes (votes st) sid)"
    by (simp add: getSessionVotes_set)
  show "\<forall>v \<in> set (votes st). \<forall>u. User_findById (userId v) (users st) = Some u \<longrightarrow>
             populate_user (users st) (userId v)
               = Some \<lparr>pop_id = user_id u, pop_username = username u, pop_email = email u\<rparr>"
    by (simp add: populate_user_def User_findById_def)
  show "role usr \<noteq> RoleAdmin
            \<and> \<not> isUserAssignedToSession (sessions st) sid (user_id usr) \<longrightarrow>
            route_get_session_results jwt_verify st h sid
              = json 403 ''You are not assigned to this voting session''"
    by (simp add: route_get_session_results_def auth getSessionResults_def sess)
qed

text \<open>
  Carol (user 4) is a regular user, is not assigned to session 10 and did not create
  it. Alice has a ballot in session 10. Carol reads the session with Alice's ballot
  and Alice's name and e-mail address, and is refused the results.
\<close>

theorem session_detail_needs_no_assignment_witness:
  "role ex_carol \<noteq> RoleAdmin
   \<and> \<not> isUserAssignedToSession (sessions (ex_store [ex_ballot 1 2 ''Alice'' 1500])) 10
          (user_id ex_carol)
   \<and> createdBy (ex_session 10 Active) \<noteq> user_id ex_carol
   \<and> route_get_session ex_verify (ex_store [ex_ballot 1 2 ''Alice'' 1500]) (Some ''Bearer t4'') 10
       = \<lparr>res_status = 200, res_message = ''Voting session retrieved successfully'',
          res_payload = SessionDetail (ex_session 10 Active)
            \<lparr>results = [\<lparr>entry_candidateName = ''Alice'', voteCount = 1,
                         customCandidateCount = 0\<rparr>],
             totalVotes = 1, totalCandidates = 1, candidate_names = [''Alice'']\<rparr>
            [\<lparr>view_id = 1, view_candidateName = ''Alice'',
              view_user = Some \<lparr>pop_id = 2, pop_username = ''alice'',
                                pop_email = ''alice@example.com''\<rparr>,
              view_timestamp = 1500, view_isCustomCandidate = False\<rparr>]\<rparr>
   \<and> route_get_session_results ex_verify (ex_store [ex_ballot 1 2 ''Alice'' 1500])
         (Some ''Bearer t4'') 10
       = json 403 ''You are not assigned to this voting session''"
proof -
  let ?st = "ex_store [ex_ballot 1 2 ''Alice'' 1500]"
  have auth: "authenticateToken ex_verify (users ?st) (Some ''Bearer t4'') = Inr ex_carol"
    by (simp add: authenticateToken_def bearer_token_def ex_verify_def User_findById_def ex_defs)
  have sess: "VotingSession_findById 10 (sessions ?st) = Some (ex_session 10 Active)"
    by (simp add: VotingSession_findById_def ex_defs)
  have r: "role ex_carol \<noteq> RoleAdmin" by (simp add: ex_carol_def)
  have a: "\<not> isUserAssignedToSession (sessions ?st) 10 (user_id ex_carol)"
    by (simp add: isUserAssignedToSession_def ex_defs)
  have c: "createdBy (ex_session 10 Active) \<noteq> user_id ex_carol"
    by (simp add: ex_session_def ex_carol_def)
  have res: "Vote_getSessionResults (votes ?st) 10
      = \<lparr>results = [\<lparr>entry_candidateName = ''Alice'', voteCount = 1,
                         customCandidateCount = 0\<rparr>],
             totalVotes = 1, totalCandidates = 1, candidate_names = [''Alice'']\<rparr>"
    by (simp add: Vote_getSessionResults_def match_stage_def group_stage_def sort_stage_def
        project_stage_def VoteModel_countDocuments_def VoteModel_distinct_candidateName_def
        ex_ballot_def ex_store_def Let_def)
  have vs: "Vote_getSessionVotes (votes ?st) 10 = [ex_ballot 1 2 ''Alice'' 1500]"
    by (simp add: Vote_getSessionVotes_def ex_store_def ex_ballot_def)
  have p: "populate_user (users ?st) 2
             = Some \<lparr>pop_id = 2, pop_username = ''alice'', pop_email = ''alice@example.com''\<rparr>"
    by (simp add: populate_user_def ex_defs)
  from session_detail_needs_no_assignment[OF auth sess] r a
  have "route_get_session ex_verify ?st (Some ''Bearer t4'') 10
       = \<lparr>res_status = 200, res_message = ''Voting session retrieved successfully'',
          res_payload = SessionDetail (ex_session 10 Active)
            (Vote_getSessionResults (votes ?st) 10)
            (map (\<lambda>vote. \<lparr>view_id = vote_id vote,
                              view_candidateName = candidateName vote,
                              view_user = populate_user (users ?st) (userId vote),
                              view_timestamp = timestamp vote,
                              view_isCustomCandidate = isCustomCandidate vote\<rparr>)
                 (Vote_getSessionVotes (votes ?st) 10))\<rparr>"
    and "route_get_session_results ex_verify ?st (Some ''Bearer t4'') 10
       = json 403 ''You are not assigned to this voting session''"
    by blast+
  then show ?thesis
    unfolding res vs using r a c p by (simp add: ex_ballot_def)
qed

end
